theory Spec2Isabelle
  imports Main
begin

section \<open>The scraper module of the PartSelect chatbot\<close>

text \<open>
  The development embeds the rate-limited, dual-strategy generation of the scraper
  module: the browser singleton with its idle timer, the sliding-window rate limiter,
  the two URL resolution strategies, the extractor and the three exported operations.

  JavaScript strings are modelled as \<^typ>\<open>string\<close> over ASCII: case mapping acts on
  the letters a-z and A-Z, and white space is the ASCII white space that \<open>trim\<close> and
  the regular expression class \<open>\s\<close> remove. A value that may be \<open>undefined\<close> is a
  \<^typ>\<open>string option\<close>. A thrown value is an \<open>Error\<close> object carrying its message.
\<close>

subsection \<open>Strings and values of the host language\<close>

datatype exn = Error (message: string)

definition lower_letters :: string where
  "lower_letters = ''abcdefghijklmnopqrstuvwxyz''"

definition upper_letters :: string where
  "upper_letters = ''ABCDEFGHIJKLMNOPQRSTUVWXYZ''"

definition toUpperChar :: "char \<Rightarrow> char" where
  "toUpperChar c = (case map_of (zip lower_letters upper_letters) c of Some u \<Rightarrow> u | None \<Rightarrow> c)"

definition toLowerChar :: "char \<Rightarrow> char" where
  "toLowerChar c = (case map_of (zip upper_letters lower_letters) c of Some l \<Rightarrow> l | None \<Rightarrow> c)"

definition toUpperCase :: "string \<Rightarrow> string" where
  "toUpperCase s = map toUpperChar s"

definition toLowerCase :: "string \<Rightarrow> string" where
  "toLowerCase s = map toLowerChar s"

definition is_space :: "char \<Rightarrow> bool" where
  "is_space c = (c = CHR 0x20 \<or> c = CHR 0x09 \<or> c = CHR 0x0A \<or> c = CHR 0x0B \<or> c = CHR 0x0C \<or> c = CHR 0x0D)"

definition js_trim :: "string \<Rightarrow> string" where
  "js_trim s = rev (dropWhile is_space (rev (dropWhile is_space s)))"

definition startsWith :: "string \<Rightarrow> string \<Rightarrow> bool" where
  "startsWith s p = (take (length p) s = p)"

fun js_includes :: "string \<Rightarrow> string \<Rightarrow> bool" where
  "js_includes [] sub = (sub = [])"
| "js_includes (c # cs) sub = (startsWith (c # cs) sub \<or> js_includes cs sub)"

text \<open>\<open>s.substring(a, b)\<close>: the arguments are swapped when \<open>a > b\<close> and clamped to the length.\<close>

definition substring :: "string \<Rightarrow> nat \<Rightarrow> nat \<Rightarrow> string" where
  "substring s a b = take (max a b - min a b) (drop (min a b) s)"

text \<open>\<open>xs.slice(0, n)\<close> on an array.\<close>

definition slice0 :: "'a list \<Rightarrow> nat \<Rightarrow> 'a list" where
  "slice0 xs n = take n xs"

text \<open>Truthiness of a string that may be undefined, and the operator \<open>||\<close> on such values.\<close>

definition truthy :: "string option \<Rightarrow> bool" where
  "truthy v = (case v of None \<Rightarrow> False | Some s \<Rightarrow> s \<noteq> [])"

definition js_or :: "string option \<Rightarrow> string option \<Rightarrow> string option" where
  "js_or a b = (if truthy a then a else b)"

text \<open>A method call on a value: a \<open>TypeError\<close> when the receiver is undefined.\<close>

definition on_string :: "string option \<Rightarrow> (string \<Rightarrow> 'a) \<Rightarrow> exn + 'a" where
  "on_string v f = (case v of None \<Rightarrow> Inl (Error ''Cannot read properties of undefined'') | Some s \<Rightarrow> Inr (f s))"

text \<open>\<open>s.replace(/\s+/g, '-')\<close>: every maximal run of white space becomes one hyphen.\<close>

fun replace_ws_from :: "bool \<Rightarrow> string \<Rightarrow> string" where
  "replace_ws_from in_run [] = []"
| "replace_ws_from in_run (c # cs) =
     (if is_space c
      then (if in_run then replace_ws_from True cs else CHR ''-'' # replace_ws_from True cs)
      else c # replace_ws_from False cs)"

definition replace_ws :: "string \<Rightarrow> string" where
  "replace_ws s = replace_ws_from False s"

subsection \<open>The cheerio document\<close>

text \<open>
  The HTML parser and selector engine are a library. A loaded document answers a selector
  with the matching elements in document order; an element has its text content, its
  attributes, and answers \<open>find\<close> for a selector among its descendants.
\<close>

datatype element =
  Element (el_text: string) (el_attrs: "(string \<times> string) list") (el_find: "string \<Rightarrow> element list")

record document =
  query :: "string \<Rightarrow> element list"
  root_text :: string

definition sel_text :: "element list \<Rightarrow> string" where
  "sel_text els = concat (map el_text els)"

definition sel_first :: "element list \<Rightarrow> element list" where
  "sel_first els = take 1 els"

definition sel_attr :: "element list \<Rightarrow> string \<Rightarrow> string option" where
  "sel_attr els name = (case els of [] \<Rightarrow> None | e # _ \<Rightarrow> map_of (el_attrs e) name)"

subsection \<open>extractPartDetails\<close>

text \<open>
  The record that \<open>extractPartDetails\<close> returns. \<open>imageUrl\<close> is the value of a chain of
  \<open>||\<close> over attribute reads, which the host language types as possibly undefined; the
  other string fields are results of \<open>trim\<close> or \<open>substring\<close>.
\<close>

record part_details =
  partNumber :: string
  title :: string
  price :: string
  description :: string
  inStock :: bool
  imageUrl :: "string option"
  installationSteps :: "string list"
  videos :: "string list"
  symptoms :: "string list"
  compatibilityNote :: string

text \<open>\<open>a || b\<close> where both operands are strings.\<close>

definition str_or :: "string \<Rightarrow> string \<Rightarrow> string" where
  "str_or a b = (if a \<noteq> [] then a else b)"

text \<open>The three \<open>each\<close> loops that fill the arrays.\<close>

definition step_texts :: "element list \<Rightarrow> string list" where
  "step_texts els = filter (\<lambda>step. step \<noteq> []) (map (\<lambda>el. js_trim (el_text el)) els)"

definition video_hrefs :: "element list \<Rightarrow> string list" where
  "video_hrefs els =
     concat (map (\<lambda>el. case map_of (el_attrs el) ''href'' of
                          None \<Rightarrow> []
                        | Some href \<Rightarrow> (if href \<noteq> [] then [href] else [])) els)"

definition symptom_texts :: "element list \<Rightarrow> string list" where
  "symptom_texts els = map (\<lambda>el. js_trim (el_text el)) els"

text \<open>The rewrite of a relative image address: only a truthy value is tested with \<open>startsWith\<close>.\<close>

definition absolute_image :: "string option \<Rightarrow> string option" where
  "absolute_image v =
     (case v of
        None \<Rightarrow> None
      | Some u \<Rightarrow> (if u \<noteq> [] \<and> \<not> startsWith u ''http''
                   then Some (''https://www.partselect.com'' @ u) else Some u))"

definition extractPartDetails :: "document \<Rightarrow> string \<Rightarrow> exn + part_details" where
  "extractPartDetails doc pn =
     (let title0 = str_or (js_trim (sel_text (query doc ''h1.title-main'')))
                          (js_trim (sel_text (sel_first (query doc ''h1''))));
          price0 = js_trim (sel_text (sel_first (query doc ''.price'')));
          description0 =
            js_or (js_or (Some (js_trim (sel_text (query doc ''.pd__description''))))
                         (sel_attr (query doc ''meta[name=\"description\"]'') ''content''))
                  (Some []);
          inStock0 =
            (js_includes (toLowerCase (sel_text (query doc ''.pd__availability''))) ''in stock''
             \<or> js_includes (toLowerCase (sel_text (query doc ''.js-partAvailability''))) ''in stock'');
          imageUrl0 =
            absolute_image
              (js_or (js_or (js_or (sel_attr (query doc ''.pd__main-image img'') ''src'')
                                   (sel_attr (query doc ''.js-mainImage'') ''src''))
                            (sel_attr (query doc ''meta[property=\"og:image\"]'') ''content''))
                     (Some []));
          installationSteps0 = step_texts (query doc ''.repair-story__step, .pd__repair-step'');
          videos0 = video_hrefs (query doc ''a[href*=\"youtube\"], a[href*=\"video\"], .video-link'');
          symptoms0 = symptom_texts (query doc ''.pd__symptom, .symptom-item'');
          compatibilityNote0 =
            js_trim (sel_text (query doc ''.pd__cross-reference, .model-compatibility''))
      in case on_string description0 (\<lambda>d. substring d 0 500) of
           Inl e \<Rightarrow> Inl e
         | Inr description1 \<Rightarrow>
             Inr \<lparr> partNumber = pn, title = title0, price = price0,
                   description = description1, inStock = inStock0,
                   imageUrl = imageUrl0,
                   installationSteps = slice0 installationSteps0 10,
                   videos = slice0 videos0 3,
                   symptoms = slice0 symptoms0 10,
                   compatibilityNote = compatibilityNote0 \<rparr>)"

subsection \<open>The outside world: browser, network, parser\<close>

text \<open>
  Everything the module reaches through a library or the network is a parameter. A
  navigation of the shared browser answers, for each call the code would make, whether that
  call raises: the calls before the \<open>try\<close> block (rate limiter, browser acquisition, context
  and page creation), the navigation itself (giving the address landed on after
  redirects), reading the rendered HTML, and closing the browsing context in \<open>finally\<close>.
  The answers may depend on everything that happened before, recorded as a list of events.
\<close>

datatype event = PsSearchStart string | DdgStart string | Puppeteer string | HttpGet string

text \<open>
  \<open>PsSearchStart\<close> and \<open>DdgStart\<close> mark the entry into the site search and into the
  search-engine fallback, with the identifier; \<open>Puppeteer\<close> is a navigation of the browser
  to an address and \<open>HttpGet\<close> a plain HTTP request.
\<close>

record navigation =
  setup_error :: "exn option"
  landed :: "exn + string"
  content :: "exn + string"
  close_error :: "exn option"

record http_response =
  ok :: bool
  status_code :: nat
  body :: "exn + string"

record world =
  encodeURIComponent :: "string \<Rightarrow> exn + string"
  decodeURIComponent :: "string \<Rightarrow> exn + string"
  regex_first :: "string \<Rightarrow> string \<Rightarrow> string \<Rightarrow> exn + (string \<times> string) option"
  regex_all :: "string \<Rightarrow> string \<Rightarrow> string \<Rightarrow> exn + string list option"
  cheerio_load :: "string \<Rightarrow> document"
  navigate :: "event list \<Rightarrow> string \<Rightarrow> navigation"
  http_get :: "event list \<Rightarrow> string \<Rightarrow> exn + http_response"

text \<open>
  \<open>regex_first w pattern flags subject\<close> is \<open>subject.match(new RegExp(pattern, flags))\<close>
  for a pattern with one group: the whole match and the group, \<open>None\<close> for no match, an
  error for a pattern that does not compile. \<open>regex_all\<close> is the same with the global
  flag, giving every match.
\<close>

definition BASE_URL :: string where
  "BASE_URL = ''https://www.partselect.com''"

text \<open>An operation returns its value or the thrown error, and the events so far.\<close>

type_synonym 'a io = "(exn + 'a) \<times> event list"

definition try_catch :: "'a io \<Rightarrow> (exn \<Rightarrow> exn + 'a) \<Rightarrow> 'a io" where
  "try_catch m handler = (case m of (Inl e, tr) \<Rightarrow> (handler e, tr) | (Inr v, tr) \<Rightarrow> (Inr v, tr))"

subsection \<open>fetchPageWithPuppeteer\<close>

definition fetchPageWithPuppeteer :: "world \<Rightarrow> string \<Rightarrow> event list \<Rightarrow> string io" where
  "fetchPageWithPuppeteer w address tr =
     (let nav = navigate w tr address; tr1 = tr @ [Puppeteer address]
      in case setup_error nav of
           Some e \<Rightarrow> (Inl e, tr1)
         | None \<Rightarrow>
             (let html = (case landed nav of Inl e \<Rightarrow> Inl e | Inr _ \<Rightarrow> content nav)
              in case close_error nav of
                   Some e \<Rightarrow> (Inl e, tr1)
                 | None \<Rightarrow> (html, tr1)))"

subsection \<open>The two resolution strategies\<close>

record resolution =
  r_url :: string
  r_method :: string

text \<open>One iteration of the loop over the links of a results page.\<close>

definition link_step :: "string \<Rightarrow> string option \<Rightarrow> element \<Rightarrow> string option" where
  "link_step pn partUrl el =
     (case map_of (el_attrs el) ''href'' of
        None \<Rightarrow> partUrl
      | Some href \<Rightarrow>
          (if href \<noteq> [] \<and> js_includes (toUpperCase href) (toUpperCase pn) \<and> \<not> truthy partUrl
           then Some (if startsWith href ''http'' then href else BASE_URL @ href)
           else partUrl))"

text \<open>The body of the \<open>try\<close> block of the site search, from the landed address on.\<close>

definition ps_search_landed :: "world \<Rightarrow> string \<Rightarrow> string \<Rightarrow> exn + string \<Rightarrow> exn + resolution option" where
  "ps_search_landed w pn finalUrl page_content =
     (if js_includes finalUrl ''.htm'' \<and> js_includes (toUpperCase finalUrl) (toUpperCase pn)
      then Inr (Some \<lparr> r_url = finalUrl, r_method = ''ps-search'' \<rparr>)
      else case page_content of
             Inl e \<Rightarrow> Inl e
           | Inr html \<Rightarrow>
               (let doc = cheerio_load w html;
                    pageTitle = toLowerCase (js_trim (sel_text (query doc ''title'')));
                    h1Text = js_trim (sel_text (sel_first (query doc ''h1'')))
                in if js_includes pageTitle ''error'' \<or> js_includes pageTitle ''not found''
                      \<or> js_includes pageTitle ''page not found''
                   then Inr None
                   else if js_includes (toUpperCase h1Text) (toUpperCase pn)
                   then Inr (Some \<lparr> r_url = finalUrl, r_method = ''ps-search'' \<rparr>)
                   else (let partUrl = foldl (link_step pn) None (query doc ''a[href*=\".htm\"]'')
                         in case partUrl of
                              None \<Rightarrow> Inr None
                            | Some u \<Rightarrow>
                                (if u \<noteq> [] then Inr (Some \<lparr> r_url = u, r_method = ''ps-search'' \<rparr>)
                                 else Inr None))))"

definition findPartSelectUrlViaSearch :: "world \<Rightarrow> string \<Rightarrow> event list \<Rightarrow> (resolution option) io" where
  "findPartSelectUrlViaSearch w pn tr =
     (let tr1 = tr @ [PsSearchStart pn]
      in case encodeURIComponent w pn of
           Inl e \<Rightarrow> (Inl e, tr1)
         | Inr q \<Rightarrow>
             (let searchUrl = BASE_URL @ ''/api/search/?searchterm='' @ q;
                  nav = navigate w tr1 searchUrl;
                  tr2 = tr1 @ [Puppeteer searchUrl]
              in case setup_error nav of
                   Some e \<Rightarrow> (Inl e, tr2)
                 | None \<Rightarrow>
                     (let attempt = (case landed nav of
                                       Inl e \<Rightarrow> Inl e
                                     | Inr finalUrl \<Rightarrow> ps_search_landed w pn finalUrl (content nav));
                          result = (case attempt of Inl e \<Rightarrow> None | Inr r \<Rightarrow> r)
                      in case close_error nav of
                           Some e \<Rightarrow> (Inl e, tr2)
                         | None \<Rightarrow> (Inr result, tr2))))"

text \<open>The three patterns of the search-engine fallback; the identifier is spliced in as is.\<close>

definition backslash :: string where
  "backslash = [CHR 0x5C]"

definition apostrophe :: string where
  "apostrophe = [CHR 0x27]"

definition encodedRegex :: "string \<Rightarrow> string" where
  "encodedRegex pn = ''uddg=([^&\"']+'' @ pn @ ''[^&\"']*)''"

definition directRegex :: "string \<Rightarrow> string" where
  "directRegex pn =
     ''https?://www'' @ backslash @ ''.partselect'' @ backslash @ ''.com/'' @ pn
       @ ''[^\"'' @ apostrophe @ backslash @ ''s&<>]*'' @ backslash @ ''.htm''"

definition fallbackRegex :: string where
  "fallbackRegex =
     ''https?:'' @ backslash @ ''/'' @ backslash @ ''/www'' @ backslash @ ''.partselect''
       @ backslash @ ''.com'' @ backslash @ ''/[^\"'' @ apostrophe @ backslash @ ''s<>]+''
       @ backslash @ ''.htm''"

text \<open>The body of the \<open>try\<close> block of the fallback, from the response on.\<close>

definition ddg_response :: "world \<Rightarrow> string \<Rightarrow> exn + http_response \<Rightarrow> exn + resolution option" where
  "ddg_response w pn response =
     (case response of
        Inl e \<Rightarrow> Inl e
      | Inr resp \<Rightarrow>
          (if \<not> ok resp then Inr None
           else case body resp of
                  Inl e \<Rightarrow> Inl e
                | Inr html \<Rightarrow>
                    (case regex_first w (encodedRegex pn) ''i'' html of
                       Inl e \<Rightarrow> Inl e
                     | Inr encodedMatch \<Rightarrow>
                         (case (case encodedMatch of
                                  None \<Rightarrow> Inr None
                                | Some (whole, group1) \<Rightarrow>
                                    (case decodeURIComponent w group1 of
                                       Inl e \<Rightarrow> Inl e
                                     | Inr decodedUrl \<Rightarrow>
                                         Inr (if js_includes decodedUrl ''partselect.com''
                                              then Some \<lparr> r_url = decodedUrl, r_method = ''ddg'' \<rparr>
                                              else None))) of
                            Inl e \<Rightarrow> Inl e
                          | Inr (Some r) \<Rightarrow> Inr (Some r)
                          | Inr None \<Rightarrow>
                              (case regex_first w (directRegex pn) ''i'' html of
                                 Inl e \<Rightarrow> Inl e
                               | Inr (Some (whole, group1)) \<Rightarrow>
                                   Inr (Some \<lparr> r_url = whole, r_method = ''ddg'' \<rparr>)
                               | Inr None \<Rightarrow>
                                   (case regex_all w fallbackRegex ''gi'' html of
                                      Inl e \<Rightarrow> Inl e
                                    | Inr None \<Rightarrow> Inr None
                                    | Inr (Some []) \<Rightarrow> Inr None
                                    | Inr (Some (first_url # _)) \<Rightarrow>
                                        Inr (Some \<lparr> r_url = first_url, r_method = ''ddg'' \<rparr>)))))))"

definition findPartSelectUrlViaDDG :: "world \<Rightarrow> string \<Rightarrow> event list \<Rightarrow> (resolution option) io" where
  "findPartSelectUrlViaDDG w pn tr =
     (let tr1 = tr @ [DdgStart pn];
          searchQuery = ''site:partselect.com '' @ pn
      in case encodeURIComponent w searchQuery of
           Inl e \<Rightarrow> (Inl e, tr1)
         | Inr q \<Rightarrow>
             (let ddgUrl = ''https://html.duckduckgo.com/html/?q='' @ q;
                  attempt = ddg_response w pn (http_get w tr1 ddgUrl)
              in (Inr (case attempt of Inl e \<Rightarrow> None | Inr r \<Rightarrow> r), tr1 @ [HttpGet ddgUrl])))"

subsection \<open>searchPart\<close>

text \<open>
  The record of a found part is the extractor's record with the two fields that
  \<open>searchPart\<close> attaches; the failure shape is an object with the single field \<open>error\<close>.
\<close>

record part_record = part_details +
  sourceMethod :: string
  url :: string

datatype search_result = ErrorRecord string | PartRecord part_record

definition searchPart_try :: "world \<Rightarrow> string \<Rightarrow> event list \<Rightarrow> search_result io" where
  "searchPart_try w pn tr =
     (case findPartSelectUrlViaSearch w pn tr of
        (Inl e, tr1) \<Rightarrow> (Inl e, tr1)
      | (Inr result1, tr1) \<Rightarrow>
          (case (if result1 = None then findPartSelectUrlViaDDG w pn tr1 else (Inr result1, tr1)) of
             (Inl e, tr2) \<Rightarrow> (Inl e, tr2)
           | (Inr None, tr2) \<Rightarrow> (Inr (ErrorRecord (''No results found for part number: '' @ pn)), tr2)
           | (Inr (Some result), tr2) \<Rightarrow>
               (case fetchPageWithPuppeteer w (r_url result) tr2 of
                  (Inl e, tr3) \<Rightarrow> (Inl e, tr3)
                | (Inr html, tr3) \<Rightarrow>
                    (case extractPartDetails (cheerio_load w html) pn of
                       Inl e \<Rightarrow> (Inl e, tr3)
                     | Inr partDetails \<Rightarrow>
                         (Inr (PartRecord (part_details.extend partDetails
                                 (part_record.fields (r_method result) (r_url result)))), tr3)))))"

definition searchPart :: "world \<Rightarrow> string \<Rightarrow> event list \<Rightarrow> search_result io" where
  "searchPart w pn tr =
     try_catch (searchPart_try w pn tr)
       (\<lambda>e. Inr (ErrorRecord (''Failed to search for part: '' @ message e)))"

subsection \<open>checkCompatibility\<close>

record compat_info =
  ci_partNumber :: string
  ci_modelNumber :: string
  modelName :: string
  isCompatible :: bool
  partInfo :: "search_result option"
  ci_message :: string

record compat_failure =
  cf_partNumber :: string
  cf_modelNumber :: string
  cf_error :: string
  cf_message :: string

datatype compat_result = CompatInfo compat_info | CompatFailure compat_failure

text \<open>The field \<open>error\<close> of a search result: undefined on a part record.\<close>

definition error_of :: "search_result \<Rightarrow> string option" where
  "error_of r = (case r of ErrorRecord msg \<Rightarrow> Some msg | PartRecord _ \<Rightarrow> None)"

definition checkCompatibility_try :: "world \<Rightarrow> string \<Rightarrow> string \<Rightarrow> event list \<Rightarrow> compat_result io" where
  "checkCompatibility_try w pn modelNumber tr =
     (case encodeURIComponent w modelNumber of
        Inl e \<Rightarrow> (Inl e, tr)
      | Inr m \<Rightarrow>
          (let modelUrl = BASE_URL @ ''/Models/'' @ m @ ''/''
           in case fetchPageWithPuppeteer w modelUrl tr of
                (Inl e, tr1) \<Rightarrow> (Inl e, tr1)
              | (Inr html, tr1) \<Rightarrow>
                  (let doc = cheerio_load w html;
                       modelName0 = js_trim (sel_text (sel_first (query doc ''h1'')));
                       pageText = toLowerCase (root_text doc);
                       partNumLower = toLowerCase pn;
                       isCompatible0 = js_includes pageText partNumLower
                   in case searchPart w pn tr1 of
                        (Inl e, tr2) \<Rightarrow> (Inl e, tr2)
                      | (Inr found, tr2) \<Rightarrow>
                          (Inr (CompatInfo
                             \<lparr> ci_partNumber = pn, ci_modelNumber = modelNumber,
                               modelName = modelName0, isCompatible = isCompatible0,
                               partInfo = (if truthy (error_of found) then None else Some found),
                               ci_message =
                                 (if isCompatible0
                                  then ''Part '' @ pn @ '' appears to be compatible with model ''
                                         @ modelNumber @ ''.''
                                  else ''Could not confirm compatibility between '' @ pn @ '' and ''
                                         @ modelNumber @ ''. Check PartSelect.com directly.'') \<rparr>),
                           tr2))))"

definition checkCompatibility :: "world \<Rightarrow> string \<Rightarrow> string \<Rightarrow> event list \<Rightarrow> compat_result io" where
  "checkCompatibility w pn modelNumber tr =
     try_catch (checkCompatibility_try w pn modelNumber tr)
       (\<lambda>e. Inr (CompatFailure
                  \<lparr> cf_partNumber = pn, cf_modelNumber = modelNumber,
                    cf_error = ''Failed to check compatibility: '' @ message e,
                    cf_message = ''Unable to verify compatibility. Please check PartSelect.com directly.'' \<rparr>))"

subsection \<open>getTroubleshootingInfo\<close>

record suggested_part =
  sp_name :: string
  sp_number :: string

record troubleshooting =
  appliance :: string
  symptom :: string
  tips :: "string list"
  suggestedParts :: "suggested_part list"
  t_message :: string

definition tip_texts :: "element list \<Rightarrow> string list" where
  "tip_texts els =
     filter (\<lambda>t. t \<noteq> [] \<and> length t > 20) (map (\<lambda>el. js_trim (el_text el)) els)"

definition suggested_of :: "element \<Rightarrow> suggested_part list" where
  "suggested_of el =
     (let partName = js_trim (sel_text (el_find el ''.mega-m__part-name, h3''));
          partNum = js_trim (sel_text (el_find el ''.mega-m__part-number, .part-number''))
      in if partName \<noteq> [] \<or> partNum \<noteq> []
         then [\<lparr> sp_name = partName, sp_number = partNum \<rparr>] else [])"

definition advisory :: "string \<Rightarrow> string \<Rightarrow> troubleshooting" where
  "advisory a s =
     \<lparr> appliance = a, symptom = s, tips = [], suggestedParts = [],
       t_message = ''Could not fetch specific troubleshooting data. Will provide general guidance.'' \<rparr>"

definition getTroubleshootingInfo_try :: "world \<Rightarrow> string \<Rightarrow> string \<Rightarrow> event list \<Rightarrow> troubleshooting io" where
  "getTroubleshootingInfo_try w a s tr =
     (let searchQuery = a @ '' '' @ s
      in case encodeURIComponent w (replace_ws searchQuery) of
           Inl e \<Rightarrow> (Inl e, tr)
         | Inr slug \<Rightarrow>
             (let searchUrl = BASE_URL @ ''/Repair/Help/'' @ slug @ ''/''
              in case fetchPageWithPuppeteer w searchUrl tr of
                   (Inl e, tr1) \<Rightarrow> (Inr (advisory a s), tr1)
                 | (Inr html, tr1) \<Rightarrow>
                     (let doc = cheerio_load w html;
                          tips0 = tip_texts (query doc ''.repair-help__tip, .repair-story, .help-content p'');
                          suggested0 = concat (map suggested_of
                                         (slice0 (query doc ''.part-suggestion, .mega-m__part'') 5))
                      in (Inr \<lparr> appliance = a, symptom = s, tips = slice0 tips0 5,
                                 suggestedParts = suggested0,
                                 t_message =
                                   (if length tips0 > 0
                                    then ''Found troubleshooting information for '' @ a @ '' '' @ s @ ''.''
                                    else ''Limited troubleshooting info available. Common causes and solutions will be provided.'') \<rparr>,
                          tr1))))"

definition getTroubleshootingInfo :: "world \<Rightarrow> string \<Rightarrow> string \<Rightarrow> event list \<Rightarrow> troubleshooting io" where
  "getTroubleshootingInfo w a s tr =
     try_catch (getTroubleshootingInfo_try w a s tr) (\<lambda>e. Inr (advisory a s))"

subsection \<open>The browser singleton and its idle timer\<close>

text \<open>
  The module variables \<open>browserInstance\<close> and \<open>idleTimeout\<close>, with what the module does to
  the world around them: browser processes are numbered in the order \<open>puppeteer.launch\<close> is
  called, \<open>live\<close> lists the processes launched and not closed, \<open>timers\<close> the timers set and
  not cleared, and \<open>emitted\<close> the reasons of the \<open>closed\<close> events sent on \<open>browserEvents\<close>.
\<close>

record session =
  browserInstance :: "nat option"
  idleTimeout :: "nat option"
  launches :: nat
  live :: "nat list"
  timers :: "nat list"
  timers_made :: nat
  emitted :: "string list"

definition clear_idle :: "session \<Rightarrow> session" where
  "clear_idle s =
     (case idleTimeout s of
        None \<Rightarrow> s
      | Some t \<Rightarrow> s \<lparr> timers := removeAll t (timers s), idleTimeout := None \<rparr>)"

definition resetIdleTimeout :: "session \<Rightarrow> session" where
  "resetIdleTimeout s =
     (let s1 = (case idleTimeout s of
                  None \<Rightarrow> s
                | Some t \<Rightarrow> s \<lparr> timers := removeAll t (timers s) \<rparr>)
      in s1 \<lparr> idleTimeout := Some (timers_made s1), timers := timers s1 @ [timers_made s1],
              timers_made := Suc (timers_made s1) \<rparr>)"

text \<open>
  An \<open>async\<close> function runs without interruption up to an \<open>await\<close> and resumes later, after
  other callers may have run. \<open>getBrowser\<close> has one \<open>await\<close>, on the launch: the part before
  it either returns the existing handle or calls \<open>puppeteer.launch\<close> and suspends; the part
  after it stores the launched handle, resets the idle timer and returns the variable.
  Launches are taken to succeed.
\<close>

datatype acquire = Returned "nat option" | Launching nat

definition getBrowser_begin :: "session \<Rightarrow> acquire \<times> session" where
  "getBrowser_begin s =
     (case browserInstance s of
        None \<Rightarrow> (Launching (launches s), s \<lparr> launches := Suc (launches s) \<rparr>)
      | Some h \<Rightarrow> (let s1 = resetIdleTimeout s in (Returned (browserInstance s1), s1)))"

definition getBrowser_resume :: "nat \<Rightarrow> session \<Rightarrow> nat option \<times> session" where
  "getBrowser_resume h s =
     (let s1 = resetIdleTimeout (s \<lparr> browserInstance := Some h, live := live s @ [h] \<rparr>)
      in (browserInstance s1, s1))"

text \<open>A schedule of callers: who enters \<open>getBrowser\<close>, and whose launch completes, in order.\<close>

datatype browser_event = Acquire nat | LaunchDone nat

record browser_system =
  sess :: session
  launching :: "(nat \<times> nat) list"
  handed :: "(nat \<times> nat option) list"

definition browser_step :: "browser_system \<Rightarrow> browser_event \<Rightarrow> browser_system" where
  "browser_step sys ev =
     (case ev of
        Acquire caller \<Rightarrow>
          (case getBrowser_begin (sess sys) of
             (Returned h, s) \<Rightarrow> sys \<lparr> sess := s, handed := handed sys @ [(caller, h)] \<rparr>
           | (Launching h, s) \<Rightarrow> sys \<lparr> sess := s, launching := launching sys @ [(caller, h)] \<rparr>)
      | LaunchDone caller \<Rightarrow>
          (case map_of (launching sys) caller of
             None \<Rightarrow> sys
           | Some h \<Rightarrow>
               (case getBrowser_resume h (sess sys) of
                  (b, s) \<Rightarrow>
                    sys \<lparr> sess := s,
                          launching := filter (\<lambda>p. fst p \<noteq> caller) (launching sys),
                          handed := handed sys @ [(caller, b)] \<rparr>)))"

definition no_browser :: session where
  "no_browser = \<lparr> browserInstance = None, idleTimeout = None, launches = 0, live = [],
                   timers = [], timers_made = 0, emitted = [] \<rparr>"

definition browser_start :: browser_system where
  "browser_start = \<lparr> sess = no_browser, launching = [], handed = [] \<rparr>"

text \<open>
  \<open>closeBrowser\<close> has one \<open>await\<close> too, on \<open>browserInstance.close()\<close>, which may reject. The
  part before it clears the idle timer and, when there is a browser, calls \<open>close\<close>; the part
  after it runs only when \<open>close\<close> resolved.
\<close>

definition closeBrowser_begin :: "session \<Rightarrow> nat option \<times> session" where
  "closeBrowser_begin s = (let s1 = clear_idle s in (browserInstance s1, s1))"

definition closeBrowser_resume :: "string \<Rightarrow> exn option \<Rightarrow> nat \<Rightarrow> session \<Rightarrow> (exn + unit) \<times> session" where
  "closeBrowser_resume reason close_outcome h s =
     (case close_outcome of
        Some e \<Rightarrow> (Inl e, s)
      | None \<Rightarrow>
          (Inr (),
           s \<lparr> browserInstance := None, live := removeAll h (live s),
               emitted := (if reason = ''inactivity'' then emitted s @ [''inactivity'']
                           else emitted s) \<rparr>))"

definition closeBrowser :: "string \<Rightarrow> exn option \<Rightarrow> session \<Rightarrow> (exn + unit) \<times> session" where
  "closeBrowser reason close_outcome s =
     (case closeBrowser_begin s of
        (None, s1) \<Rightarrow> (Inr (), s1)
      | (Some h, s1) \<Rightarrow> closeBrowser_resume reason close_outcome h s1)"

subsection \<open>The rate limiter\<close>

definition RATE_LIMIT :: nat where
  "RATE_LIMIT = 60"

definition RATE_WINDOW_MS :: int where
  "RATE_WINDOW_MS = 60 * 1000"

text \<open>
  \<open>waitForRateLimit\<close> reads the clock on entry (\<open>now\<close>) and again when it records the
  request. Its one \<open>await\<close> is the timer of the wait: the part before it evicts, and either
  records the request or suspends for \<open>waitTime\<close>; the part after it drops the first
  timestamp and records the request.
\<close>

datatype admission = Admitted | Waiting int

definition waitForRateLimit_begin :: "int \<Rightarrow> int \<Rightarrow> int list \<Rightarrow> admission \<times> int list" where
  "waitForRateLimit_begin now now_push requestTimestamps =
     (let ts = dropWhile (\<lambda>t. t < now - RATE_WINDOW_MS) requestTimestamps
      in if length ts \<ge> RATE_LIMIT
         then (case ts of
                 [] \<Rightarrow> (Admitted, [now_push])
               | oldestTimestamp # rest \<Rightarrow>
                   (let waitTime = oldestTimestamp + RATE_WINDOW_MS - now
                    in if waitTime > 0 then (Waiting waitTime, ts)
                       else (Admitted, rest @ [now_push])))
         else (Admitted, ts @ [now_push]))"

definition waitForRateLimit_resume :: "int \<Rightarrow> int list \<Rightarrow> int list" where
  "waitForRateLimit_resume now_push requestTimestamps = tl requestTimestamps @ [now_push]"

text \<open>
  A schedule of callers on one clock: \<open>Call t\<close> is a caller entering at time \<open>t\<close>, \<open>Wake i t\<close>
  the timer of the \<open>i\<close>-th suspended caller firing at time \<open>t\<close>, not before its deadline.
  \<open>admitted\<close> logs every timestamp recorded. A schedule whose clock runs backwards, or that
  wakes a caller early, is no schedule.
\<close>

datatype limiter_event = Call int | Wake nat int

record limiter =
  requestTimestamps :: "int list"
  suspended :: "int list"
  admitted :: "int list"
  clock :: int

definition limiter_step :: "limiter \<Rightarrow> limiter_event \<Rightarrow> limiter option" where
  "limiter_step l ev =
     (case ev of
        Call t \<Rightarrow>
          (if t < clock l then None
           else (case waitForRateLimit_begin t t (requestTimestamps l) of
                   (Admitted, ts) \<Rightarrow>
                     Some (l \<lparr> requestTimestamps := ts, admitted := admitted l @ [t], clock := t \<rparr>)
                 | (Waiting waitTime, ts) \<Rightarrow>
                     Some (l \<lparr> requestTimestamps := ts, suspended := suspended l @ [t + waitTime],
                               clock := t \<rparr>)))
      | Wake i t \<Rightarrow>
          (if t < clock l then None
           else if i < length (suspended l)
           then (if t < suspended l ! i then None
                 else Some (l \<lparr> requestTimestamps := waitForRateLimit_resume t (requestTimestamps l),
                                 suspended := take i (suspended l) @ drop (Suc i) (suspended l),
                                 admitted := admitted l @ [t], clock := t \<rparr>))
           else None))"

fun limiter_run :: "limiter \<Rightarrow> limiter_event list \<Rightarrow> limiter option" where
  "limiter_run l [] = Some l"
| "limiter_run l (ev # evs) =
     (case limiter_step l ev of None \<Rightarrow> None | Some l' \<Rightarrow> limiter_run l' evs)"

definition limiter_start :: limiter where
  "limiter_start = \<lparr> requestTimestamps = [], suspended = [], admitted = [], clock = 0 \<rparr>"

text \<open>The admissions whose timestamps fall in the window of \<open>RATE_WINDOW_MS\<close> that ends at \<open>t\<close>.\<close>

definition in_window :: "int \<Rightarrow> int list \<Rightarrow> int list" where
  "in_window t stamps = filter (\<lambda>a. t - RATE_WINDOW_MS < a \<and> a \<le> t) stamps"

subsection \<open>Names for two values computed inside the extractor\<close>

definition description_value :: "document \<Rightarrow> string option" where
  "description_value doc =
     js_or (js_or (Some (js_trim (sel_text (query doc ''.pd__description''))))
                  (sel_attr (query doc ''meta[name=\"description\"]'') ''content''))
           (Some [])"

definition image_value :: "document \<Rightarrow> string option" where
  "image_value doc =
     absolute_image
       (js_or (js_or (js_or (sel_attr (query doc ''.pd__main-image img'') ''src'')
                            (sel_attr (query doc ''.js-mainImage'') ''src''))
                     (sel_attr (query doc ''meta[property=\"og:image\"]'') ''content''))
              (Some []))"

subsection \<open>Concrete inputs\<close>

text \<open>A page on which no selector matches, and one whose only content is a meta description.\<close>

definition empty_document :: document where
  "empty_document = \<lparr> query = (\<lambda>_. []), root_text = [] \<rparr>"

definition meta_only_document :: document where
  "meta_only_document =
     \<lparr> query = (\<lambda>sel. if sel = ''meta[name=\"description\"]''
                       then [Element [] [(''content'', '' Door shelf bin '')] (\<lambda>_. [])] else []),
       root_text = [] \<rparr>"

subsection \<open>Notions used in the statements\<close>

text \<open>
  The events that belong to the search-engine fallback; the part of \<open>searchPart\<close> that
  follows a successful resolution, under a name; and the bounds on a troubleshooting result.
\<close>

definition ddg_event :: "event \<Rightarrow> bool" where
  "ddg_event ev = (case ev of DdgStart _ \<Rightarrow> True | HttpGet _ \<Rightarrow> True | _ \<Rightarrow> False)"

definition fetch_and_extract :: "world \<Rightarrow> string \<Rightarrow> resolution \<Rightarrow> event list \<Rightarrow> search_result io" where
  "fetch_and_extract w pn result tr =
     (case fetchPageWithPuppeteer w (r_url result) tr of
        (Inl e, tr3) \<Rightarrow> (Inl e, tr3)
      | (Inr html, tr3) \<Rightarrow>
          (case extractPartDetails (cheerio_load w html) pn of
             Inl e \<Rightarrow> (Inl e, tr3)
           | Inr partDetails \<Rightarrow>
               (Inr (PartRecord (part_details.extend partDetails
                       (part_record.fields (r_method result) (r_url result)))), tr3)))"

definition bounded_advice :: "string \<Rightarrow> string \<Rightarrow> troubleshooting \<Rightarrow> bool" where
  "bounded_advice a s r =
     (appliance r = a \<and> symptom r = s \<and> length (tips r) \<le> 5
      \<and> list_all (\<lambda>t. length t > 20) (tips r) \<and> length (suggestedParts r) \<le> 5)"

subsection \<open>Concrete worlds, pages and schedules\<close>

text \<open>
  A world whose encoders are the identity and whose regular expressions never match, given
  its browser, its network and its parser; then the worlds the examples run in: one with
  no network, one whose browser does not start, one whose search page has the identifier
  in its heading, one whose search redirects to a part page titled as an error, one whose
  search page is titled as not found but has the heading and a link, a model page, and a
  repair-help page.
\<close>

definition plain_world :: "(string \<Rightarrow> navigation) \<Rightarrow> (string \<Rightarrow> exn + http_response) \<Rightarrow> (string \<Rightarrow> document) \<Rightarrow> world" where
  "plain_world nav http parse =
     \<lparr> encodeURIComponent = Inr, decodeURIComponent = Inr,
       regex_first = (\<lambda>pattern flags subject. Inr None),
       regex_all = (\<lambda>pattern flags subject. Inr None),
       cheerio_load = parse, navigate = (\<lambda>tr. nav), http_get = (\<lambda>tr. http) \<rparr>"

definition offline_world :: world where
  "offline_world =
     plain_world
       (\<lambda>address. \<lparr> setup_error = None, landed = Inl (Error ''net::ERR_INTERNET_DISCONNECTED''),
                     content = Inl (Error ''no page''), close_error = None \<rparr>)
       (\<lambda>address. Inl (Error ''fetch failed''))
       (\<lambda>html. empty_document)"

definition crashed_world :: world where
  "crashed_world =
     plain_world
       (\<lambda>address. \<lparr> setup_error = Some (Error ''Failed to launch the browser process''),
                     landed = Inl (Error ''no page''), content = Inl (Error ''no page''),
                     close_error = None \<rparr>)
       (\<lambda>address. Inl (Error ''fetch failed''))
       (\<lambda>html. empty_document)"

definition leaf :: "string \<Rightarrow> (string \<times> string) list \<Rightarrow> element" where
  "leaf txt attrs = Element txt attrs (\<lambda>sel. [])"

definition stay_put :: "string \<Rightarrow> navigation" where
  "stay_put address =
     \<lparr> setup_error = None, landed = Inr address, content = Inr ''<html>'', close_error = None \<rparr>"

definition heading_document :: document where
  "heading_document =
     \<lparr> query = (\<lambda>sel. if sel = ''h1'' then [leaf ''Door Shelf Bin PS11752778'' []]
                       else if sel = ''title'' then [leaf ''Whirlpool Door Bin'' []]
                       else []),
       root_text = ''Whirlpool Door Bin Door Shelf Bin PS11752778'' \<rparr>"

definition heading_world :: world where
  "heading_world = plain_world stay_put (\<lambda>address. Inl (Error ''fetch failed'')) (\<lambda>html. heading_document)"

definition redirect_error_world :: world where
  "redirect_error_world =
     plain_world
       (\<lambda>address. \<lparr> setup_error = None, landed = Inr ''https://www.partselect.com/PS11752778-Bin.htm'',
                     content = Inr ''<html>'', close_error = None \<rparr>)
       (\<lambda>address. Inl (Error ''fetch failed''))
       (\<lambda>html. \<lparr> query = (\<lambda>sel. if sel = ''title'' then [leaf ''Error'' []] else []),
                  root_text = ''Error'' \<rparr>)"

definition not_found_document :: document where
  "not_found_document =
     \<lparr> query = (\<lambda>sel. if sel = ''title'' then [leaf ''Page Not Found'' []]
                       else if sel = ''h1'' then [leaf ''PS11752778'' []]
                       else if sel = ''a[href*=\".htm\"]'' then [leaf ''Bin'' [(''href'', ''/PS11752778-Bin.htm'')]]
                       else []),
       root_text = ''Page Not Found'' \<rparr>"

definition not_found_world :: world where
  "not_found_world =
     plain_world stay_put (\<lambda>address. Inl (Error ''fetch failed'')) (\<lambda>html. not_found_document)"

definition model_document :: document where
  "model_document =
     \<lparr> query = (\<lambda>sel. if sel = ''h1'' then [leaf ''ABC1 Whirlpool Dishwasher'' []] else []),
       root_text = ''ABC1 Whirlpool Dishwasher Parts'' \<rparr>"

definition model_world :: world where
  "model_world = plain_world stay_put (\<lambda>address. Inl (Error ''fetch failed'')) (\<lambda>html. model_document)"

definition tips_document :: document where
  "tips_document =
     \<lparr> query = (\<lambda>sel.
         if sel = ''.repair-help__tip, .repair-story, .help-content p''
         then [leaf ''Check hose'' [], leaf '' Clean the drain filter and check the hose. '' []]
         else if sel = ''.part-suggestion, .mega-m__part''
         then [Element ''Drain Pump PS11752778'' []
                 (\<lambda>inner. if inner = ''.mega-m__part-name, h3'' then [leaf ''Drain Pump'' []]
                           else if inner = ''.mega-m__part-number, .part-number'' then [leaf ''PS11752778'' []]
                           else [])]
         else []),
       root_text = ''Dishwasher not draining'' \<rparr>"

definition tips_world :: world where
  "tips_world = plain_world stay_put (\<lambda>address. Inl (Error ''fetch failed'')) (\<lambda>html. tips_document)"

text \<open>
  A session with a browser and a pending idle timer, and one with no browser but a timer
  that was never cleared.
\<close>

definition live_session :: session where
  "live_session = \<lparr> browserInstance = Some 0, idleTimeout = Some 0, launches = 1, live = [0],
                     timers = [0], timers_made = 1, emitted = [] \<rparr>"

definition stale_timer_session :: session where
  "stale_timer_session = \<lparr> browserInstance = None, idleTimeout = Some 3, launches = 2, live = [],
                     timers = [3], timers_made = 4, emitted = [] \<rparr>"

text \<open>
  One request at time 0 and 59 at 1000 ms fill the window; two callers enter at 2000 ms,
  and both timers fire at 60000 ms.
\<close>

definition racing_callers :: "limiter_event list" where
  "racing_callers =
     Call 0 # replicate 59 (Call 1000) @ [Call 2000, Call 2000, Wake 0 60000, Wake 0 60000]"

subsection \<open>Serial callers of the rate limiter\<close>

text \<open>
  A schedule is serial when no caller enters while another is suspended. \<open>newer b\<close> counts
  the timestamps after \<open>b\<close>. The invariant of serial schedules: the array has at most
  \<open>RATE_LIMIT\<close> entries, every window holds at most \<open>RATE_LIMIT\<close> admissions, every
  admission that is still within one window of the clock is in the array, and a suspended
  caller waits for the first entry of the array to expire.
\<close>

fun serial :: "limiter \<Rightarrow> limiter_event list \<Rightarrow> bool" where
  "serial l [] = True"
| "serial l (ev # evs) =
     ((case ev of Call t \<Rightarrow> suspended l = [] | Wake i t \<Rightarrow> True)
      \<and> (case limiter_step l ev of None \<Rightarrow> True | Some l' \<Rightarrow> serial l' evs))"

definition newer :: "int \<Rightarrow> int list \<Rightarrow> nat" where
  "newer b stamps = length (filter (\<lambda>x. b < x) stamps)"

definition serial_inv :: "limiter \<Rightarrow> bool" where
  "serial_inv l =
     (length (requestTimestamps l) \<le> RATE_LIMIT
      \<and> (\<forall>t. length (in_window t (admitted l)) \<le> RATE_LIMIT)
      \<and> (\<forall>b. clock l - RATE_WINDOW_MS \<le> b \<longrightarrow> newer b (admitted l) \<le> newer b (requestTimestamps l))
      \<and> (suspended l = []
          \<or> (\<exists>oldest rest. requestTimestamps l = oldest # rest
                \<and> suspended l = [oldest + RATE_WINDOW_MS])))"

section \<open>Properties\<close>

subsection \<open>Strings\<close>

lemma dropWhile_head_fixed: "xs = [] \<or> \<not> P (hd xs) \<Longrightarrow> dropWhile P xs = xs"
  by (cases xs) auto

lemma trim_shape:
  "dropWhile P (rev (dropWhile P (rev (dropWhile P s)))) = rev (dropWhile P (rev (dropWhile P s)))"
proof -
  define t where "t = dropWhile P s"
  define u where "u = rev (dropWhile P (rev t))"
  have split: "t = u @ rev (takeWhile P (rev t))"
    unfolding u_def by (metis rev_append rev_rev_ident takeWhile_dropWhile_id)
  have "u = [] \<or> \<not> P (hd u)"
  proof (cases "u = []")
    case True then show ?thesis by simp
  next
    case False
    then have "t \<noteq> []" using split by auto
    then have "\<not> P (hd t)" unfolding t_def by (rule hd_dropWhile)
    moreover have "hd t = hd u" using split False by (metis hd_append2)
    ultimately show ?thesis by simp
  qed
  then have "dropWhile P u = u" by (rule dropWhile_head_fixed)
  then show ?thesis by (simp add: u_def t_def)
qed

lemma js_trim_idem: "js_trim (js_trim s) = js_trim s"
  by (simp add: js_trim_def trim_shape)

lemma js_trim_nil: "js_trim [] = []"
  by (simp add: js_trim_def)

lemma js_includes_nil: "js_includes s [] = True"
  by (cases s) (simp_all add: startsWith_def)

lemma js_includes_prefix: "js_includes (b @ c) b"
  by (cases b) (simp_all add: startsWith_def js_includes_nil)

lemma js_includes_append3: "js_includes (a @ b @ c) b"
proof (induction a)
  case Nil
  show ?case using js_includes_prefix by simp
next
  case (Cons x a)
  then show ?case by simp
qed

lemma js_includes_append: "js_includes (a @ b) b"
  using js_includes_append3 [of a b "[]"] by simp

subsection \<open>The extractor\<close>

lemma js_or_defined: "\<exists>s. js_or a (Some t) = Some s"
  by (cases a) (simp_all add: js_or_def truthy_def)

lemma absolute_image_defined: "v \<noteq> None \<Longrightarrow> absolute_image v \<noteq> None"
  by (cases v) (simp_all add: absolute_image_def)

lemma substring_length: "length (substring s 0 n) \<le> n"
  by (simp add: substring_def)

lemma slice0_length: "length (slice0 xs n) \<le> n"
  by (simp add: slice0_def)

lemma step_texts_trimmed: "s \<in> set (slice0 (step_texts els) n) \<Longrightarrow> js_trim s = s"
proof -
  assume "s \<in> set (slice0 (step_texts els) n)"
  then have "s \<in> set (step_texts els)" unfolding slice0_def by (rule in_set_takeD)
  then show ?thesis by (auto simp: step_texts_def js_trim_idem)
qed

lemma symptom_texts_trimmed: "s \<in> set (slice0 (symptom_texts els) n) \<Longrightarrow> js_trim s = s"
proof -
  assume "s \<in> set (slice0 (symptom_texts els) n)"
  then have "s \<in> set (symptom_texts els)" unfolding slice0_def by (rule in_set_takeD)
  then show ?thesis by (auto simp: symptom_texts_def js_trim_idem)
qed

lemma str_or_trimmed: "js_trim (str_or (js_trim a) (js_trim b)) = str_or (js_trim a) (js_trim b)"
  by (simp add: str_or_def js_trim_idem)

lemma description_value_defined: "\<exists>d. description_value doc = Some d"
  unfolding description_value_def by (rule js_or_defined)

lemma image_value_defined: "\<exists>v. image_value doc = Some v"
proof -
  obtain v0 where "js_or (js_or (js_or (sel_attr (query doc ''.pd__main-image img'') ''src'')
                            (sel_attr (query doc ''.js-mainImage'') ''src''))
                     (sel_attr (query doc ''meta[property=\"og:image\"]'') ''content''))
              (Some []) = Some v0"
    using js_or_defined by blast
  then show ?thesis
    unfolding image_value_def using absolute_image_defined [of "Some v0"] by auto
qed

lemma extract_result:
  assumes "description_value doc = Some d"
  shows "extractPartDetails doc pn =
     Inr \<lparr> partNumber = pn,
           title = str_or (js_trim (sel_text (query doc ''h1.title-main'')))
                          (js_trim (sel_text (sel_first (query doc ''h1'')))),
           price = js_trim (sel_text (sel_first (query doc ''.price''))),
           description = substring d 0 500,
           inStock = (js_includes (toLowerCase (sel_text (query doc ''.pd__availability''))) ''in stock''
             \<or> js_includes (toLowerCase (sel_text (query doc ''.js-partAvailability''))) ''in stock''),
           imageUrl = image_value doc,
           installationSteps = slice0 (step_texts (query doc ''.repair-story__step, .pd__repair-step'')) 10,
           videos = slice0 (video_hrefs (query doc ''a[href*=\"youtube\"], a[href*=\"video\"], .video-link'')) 3,
           symptoms = slice0 (symptom_texts (query doc ''.pd__symptom, .symptom-item'')) 10,
           compatibilityNote = js_trim (sel_text (query doc ''.pd__cross-reference, .model-compatibility'')) \<rparr>"
  using assms unfolding extractPartDetails_def Let_def description_value_def image_value_def on_string_def
  by simp

lemma extract_defined: "\<exists>r. extractPartDetails doc pn = Inr r"
  using description_value_defined [of doc] extract_result [of doc _ pn] by blast

text \<open>
  Claim C4, as the code has it. \<open>extractPartDetails\<close> never raises: on every document and
  identifier it returns a record. No field of the record is undefined, the identifier is
  echoed, the description has at most 500 characters, and there are at most 10 installation
  steps, 3 videos and 10 symptoms. The title, the price, the compatibility note, every
  installation step and every symptom are trimmed. A field none of whose selectors matches
  has its default: the empty string, the empty array, or \<open>False\<close> for \<open>inStock\<close>. The
  description and the image address are not promised to be trimmed: a description taken
  from the meta tag, or cut at 500 characters, keeps its white space.
\<close>

theorem extractPartDetails_total:
  "\<exists>r. extractPartDetails doc pn = Inr r
     \<and> partNumber r = pn
     \<and> imageUrl r \<noteq> None
     \<and> length (description r) \<le> 500
     \<and> length (installationSteps r) \<le> 10
     \<and> length (videos r) \<le> 3
     \<and> length (symptoms r) \<le> 10
     \<and> js_trim (title r) = title r
     \<and> js_trim (price r) = price r
     \<and> js_trim (compatibilityNote r) = compatibilityNote r
     \<and> (\<forall>s \<in> set (installationSteps r). js_trim s = s)
     \<and> (\<forall>s \<in> set (symptoms r). js_trim s = s)
     \<and> (query doc ''h1.title-main'' = [] \<and> query doc ''h1'' = [] \<longrightarrow> title r = [])
     \<and> (query doc ''.price'' = [] \<longrightarrow> price r = [])
     \<and> (query doc ''.pd__description'' = [] \<and> query doc ''meta[name=\"description\"]'' = []
          \<longrightarrow> description r = [])
     \<and> (query doc ''.pd__availability'' = [] \<and> query doc ''.js-partAvailability'' = []
          \<longrightarrow> \<not> inStock r)
     \<and> (query doc ''.pd__main-image img'' = [] \<and> query doc ''.js-mainImage'' = []
          \<and> query doc ''meta[property=\"og:image\"]'' = [] \<longrightarrow> imageUrl r = Some [])
     \<and> (query doc ''.repair-story__step, .pd__repair-step'' = [] \<longrightarrow> installationSteps r = [])
     \<and> (query doc ''a[href*=\"youtube\"], a[href*=\"video\"], .video-link'' = [] \<longrightarrow> videos r = [])
     \<and> (query doc ''.pd__symptom, .symptom-item'' = [] \<longrightarrow> symptoms r = [])
     \<and> (query doc ''.pd__cross-reference, .model-compatibility'' = [] \<longrightarrow> compatibilityNote r = [])"
proof -
  obtain d where d: "description_value doc = Some d"
    using description_value_defined by blast
  obtain v where v: "image_value doc = Some v"
    using image_value_defined by blast
  define r where "r = \<lparr> partNumber = pn,
           title = str_or (js_trim (sel_text (query doc ''h1.title-main'')))
                          (js_trim (sel_text (sel_first (query doc ''h1'')))),
           price = js_trim (sel_text (sel_first (query doc ''.price''))),
           description = substring d 0 500,
           inStock = (js_includes (toLowerCase (sel_text (query doc ''.pd__availability''))) ''in stock''
             \<or> js_includes (toLowerCase (sel_text (query doc ''.js-partAvailability''))) ''in stock''),
           imageUrl = image_value doc,
           installationSteps = slice0 (step_texts (query doc ''.repair-story__step, .pd__repair-step'')) 10,
           videos = slice0 (video_hrefs (query doc ''a[href*=\"youtube\"], a[href*=\"video\"], .video-link'')) 3,
           symptoms = slice0 (symptom_texts (query doc ''.pd__symptom, .symptom-item'')) 10,
           compatibilityNote = js_trim (sel_text (query doc ''.pd__cross-reference, .model-compatibility'')) \<rparr>"
  have res: "extractPartDetails doc pn = Inr r"
    unfolding r_def using d by (rule extract_result)
  have f1: "partNumber r = pn" by (simp add: r_def)
  have f2: "imageUrl r \<noteq> None" by (simp add: r_def v)
  have f3: "length (description r) \<le> 500" by (simp add: r_def substring_length)
  have f4: "length (installationSteps r) \<le> 10" by (simp add: r_def slice0_length)
  have f5: "length (videos r) \<le> 3" by (simp add: r_def slice0_length)
  have f6: "length (symptoms r) \<le> 10" by (simp add: r_def slice0_length)
  have f7: "js_trim (title r) = title r" by (simp add: r_def str_or_trimmed)
  have f8: "js_trim (price r) = price r" by (simp add: r_def js_trim_idem)
  have f9: "js_trim (compatibilityNote r) = compatibilityNote r" by (simp add: r_def js_trim_idem)
  have f10: "\<forall>s \<in> set (installationSteps r). js_trim s = s"
    by (simp add: r_def step_texts_trimmed)
  have f11: "\<forall>s \<in> set (symptoms r). js_trim s = s"
    by (simp add: r_def symptom_texts_trimmed)
  have g1: "query doc ''h1.title-main'' = [] \<and> query doc ''h1'' = [] \<longrightarrow> title r = []"
    by (simp add: r_def str_or_def sel_text_def sel_first_def js_trim_nil)
  have g2: "query doc ''.price'' = [] \<longrightarrow> price r = []"
    by (simp add: r_def sel_text_def sel_first_def js_trim_nil)
  have g3: "query doc ''.pd__description'' = [] \<and> query doc ''meta[name=\"description\"]'' = []
          \<longrightarrow> description r = []"
  proof
    assume "query doc ''.pd__description'' = [] \<and> query doc ''meta[name=\"description\"]'' = []"
    then have "description_value doc = Some []"
      by (simp add: description_value_def sel_text_def sel_attr_def js_trim_nil js_or_def truthy_def)
    with d have "d = []" by simp
    then show "description r = []" by (simp add: r_def substring_def)
  qed
  have g4: "query doc ''.pd__availability'' = [] \<and> query doc ''.js-partAvailability'' = []
          \<longrightarrow> \<not> inStock r"
    by (simp add: r_def sel_text_def toLowerCase_def)
  have g5: "query doc ''.pd__main-image img'' = [] \<and> query doc ''.js-mainImage'' = []
          \<and> query doc ''meta[property=\"og:image\"]'' = [] \<longrightarrow> imageUrl r = Some []"
    by (simp add: r_def image_value_def sel_attr_def js_or_def truthy_def absolute_image_def)
  have g6: "query doc ''.repair-story__step, .pd__repair-step'' = [] \<longrightarrow> installationSteps r = []"
    by (simp add: r_def step_texts_def slice0_def)
  have g7: "query doc ''a[href*=\"youtube\"], a[href*=\"video\"], .video-link'' = [] \<longrightarrow> videos r = []"
    by (simp add: r_def video_hrefs_def slice0_def)
  have g8: "query doc ''.pd__symptom, .symptom-item'' = [] \<longrightarrow> symptoms r = []"
    by (simp add: r_def symptom_texts_def slice0_def)
  have g9: "query doc ''.pd__cross-reference, .model-compatibility'' = [] \<longrightarrow> compatibilityNote r = []"
    by (simp add: r_def sel_text_def js_trim_nil)
  show ?thesis
    by (rule exI [of _ r])
       (intro conjI res f1 f2 f3 f4 f5 f6 f7 f8 f9 f10 f11 g1 g2 g3 g4 g5 g6 g7 g8 g9)
qed

theorem extractPartDetails_total_witness:
  "\<exists>r. extractPartDetails empty_document ''PS11752778'' = Inr r
     \<and> partNumber r = ''PS11752778'' \<and> title r = [] \<and> price r = [] \<and> description r = []
     \<and> inStock r = False \<and> imageUrl r = Some [] \<and> installationSteps r = []
     \<and> videos r = [] \<and> symptoms r = [] \<and> compatibilityNote r = []"
  using extractPartDetails_total [of empty_document "''PS11752778''"]
  by (simp add: empty_document_def) (elim exE conjE, intro exI conjI; assumption)

text \<open>
  The claim as stated also has the description trimmed. On a page whose description comes
  from the meta tag it is not.
\<close>

theorem description_not_trimmed:
  "(case extractPartDetails meta_only_document ''PS11752778'' of
      Inl e \<Rightarrow> False
    | Inr r \<Rightarrow> description r = '' Door shelf bin '' \<and> js_trim (description r) \<noteq> description r)"
  by (simp add: extractPartDetails_def meta_only_document_def sel_text_def sel_first_def sel_attr_def
        js_trim_def js_or_def truthy_def on_string_def substring_def str_or_def toLowerCase_def
        absolute_image_def step_texts_def video_hrefs_def symptom_texts_def slice0_def is_space_def)

subsection \<open>Exceptions and events\<close>

lemma try_catch_returns:
  assumes "\<And>e. \<exists>v. handler e = Inr v"
  shows "\<exists>v. fst (try_catch m handler) = Inr v"
proof (cases m)
  case (Pair r tr)
  then show ?thesis using assms by (cases r) (auto simp: try_catch_def)
qed

lemma try_catch_trace: "snd (try_catch m handler) = snd m"
  by (cases m; cases "fst m") (auto simp: try_catch_def)

lemma try_catch_Inl: "fst m = Inl e \<Longrightarrow> fst (try_catch m handler) = handler e"
  by (cases m) (auto simp: try_catch_def)

lemma try_catch_Inr: "fst m = Inr v \<Longrightarrow> fst (try_catch m handler) = Inr v"
  by (cases m) (auto simp: try_catch_def)

lemma fetch_trace: "snd (fetchPageWithPuppeteer w u tr) = tr @ [Puppeteer u]"
  by (simp add: fetchPageWithPuppeteer_def Let_def split: option.splits)

lemma primary_trace:
  "\<exists>evs. snd (findPartSelectUrlViaSearch w pn tr) = tr @ PsSearchStart pn # evs
         \<and> filter ddg_event evs = [] \<and> PsSearchStart pn \<notin> set evs"
  by (simp add: findPartSelectUrlViaSearch_def Let_def ddg_event_def split: option.splits sum.splits)

lemma ddg_trace_strict:
  "\<exists>evs. snd (findPartSelectUrlViaDDG w pn tr) = tr @ DdgStart pn # evs
         \<and> PsSearchStart pn \<notin> set evs"
  by (simp add: findPartSelectUrlViaDDG_def Let_def split: sum.splits)

subsection \<open>What the strategies return\<close>

lemma ps_search_landed_method:
  "ps_search_landed w pn finalUrl c = Inr (Some res) \<Longrightarrow> r_method res = ''ps-search''"
  by (auto simp: ps_search_landed_def Let_def split: if_splits sum.splits option.splits)

lemma primary_method:
  assumes "fst (findPartSelectUrlViaSearch w pn tr) = Inr (Some res)"
  shows "r_method res = ''ps-search''"
  using assms
  by (auto simp: findPartSelectUrlViaSearch_def Let_def
           split: sum.splits option.splits dest: ps_search_landed_method)

lemma ddg_response_method:
  "ddg_response w pn resp = Inr (Some res) \<Longrightarrow> r_method res = ''ddg''"
  by (auto simp: ddg_response_def split: sum.splits option.splits if_splits list.splits prod.splits)

lemma ddg_method:
  assumes "fst (findPartSelectUrlViaDDG w pn tr) = Inr (Some res)"
  shows "r_method res = ''ddg''"
  using assms
  by (auto simp: findPartSelectUrlViaDDG_def Let_def
           split: sum.splits option.splits dest: ddg_response_method)

subsection \<open>The paths through searchPart\<close>

lemma extract_partNumber: "extractPartDetails doc pn = Inr d \<Longrightarrow> partNumber d = pn"
  using description_value_defined [of doc] extract_result [of doc _ pn] by auto

lemma fetch_and_extract_trace: "snd (fetch_and_extract w pn res tr) = tr @ [Puppeteer (r_url res)]"
proof -
  obtain x tr3 where f: "fetchPageWithPuppeteer w (r_url res) tr = (x, tr3)"
    by (cases "fetchPageWithPuppeteer w (r_url res) tr")
  then have "tr3 = tr @ [Puppeteer (r_url res)]"
    using fetch_trace [of w "r_url res" tr] by simp
  then show ?thesis
    using f by (simp add: fetch_and_extract_def split: sum.splits)
qed

lemma fetch_and_extract_record:
  assumes "fst (fetch_and_extract w pn res tr) = Inr x"
  shows "\<exists>r. x = PartRecord r \<and> partNumber r = pn \<and> sourceMethod r = r_method res
             \<and> url r = r_url res"
proof -
  obtain y tr3 where f: "fetchPageWithPuppeteer w (r_url res) tr = (y, tr3)"
    by (cases "fetchPageWithPuppeteer w (r_url res) tr")
  from assms f obtain html where y: "y = Inr html"
    by (cases y) (simp_all add: fetch_and_extract_def)
  from assms f y obtain d where d: "extractPartDetails (cheerio_load w html) pn = Inr d"
    by (cases "extractPartDetails (cheerio_load w html) pn") (simp_all add: fetch_and_extract_def)
  have x: "x = PartRecord (part_details.extend d (part_record.fields (r_method res) (r_url res)))"
    using assms f y d by (simp add: fetch_and_extract_def)
  have "partNumber d = pn" using d by (rule extract_partNumber)
  then show ?thesis
    unfolding x by (simp add: part_details.defs part_record.defs)
qed

lemma searchPart_try_primary_raises:
  "fst (findPartSelectUrlViaSearch w pn tr) = Inl e \<Longrightarrow>
     searchPart_try w pn tr = (Inl e, snd (findPartSelectUrlViaSearch w pn tr))"
  by (cases "findPartSelectUrlViaSearch w pn tr") (simp add: searchPart_try_def)

lemma searchPart_try_primary_found:
  "fst (findPartSelectUrlViaSearch w pn tr) = Inr (Some res) \<Longrightarrow>
     searchPart_try w pn tr = fetch_and_extract w pn res (snd (findPartSelectUrlViaSearch w pn tr))"
  by (cases "findPartSelectUrlViaSearch w pn tr") (simp add: searchPart_try_def fetch_and_extract_def)

lemma searchPart_try_fallback_raises:
  "fst (findPartSelectUrlViaSearch w pn tr) = Inr None \<Longrightarrow>
   fst (findPartSelectUrlViaDDG w pn (snd (findPartSelectUrlViaSearch w pn tr))) = Inl e \<Longrightarrow>
     searchPart_try w pn tr =
       (Inl e, snd (findPartSelectUrlViaDDG w pn (snd (findPartSelectUrlViaSearch w pn tr))))"
  by (cases "findPartSelectUrlViaSearch w pn tr";
      cases "findPartSelectUrlViaDDG w pn (snd (findPartSelectUrlViaSearch w pn tr))")
     (simp add: searchPart_try_def)

lemma searchPart_try_nothing_found:
  "fst (findPartSelectUrlViaSearch w pn tr) = Inr None \<Longrightarrow>
   fst (findPartSelectUrlViaDDG w pn (snd (findPartSelectUrlViaSearch w pn tr))) = Inr None \<Longrightarrow>
     searchPart_try w pn tr =
       (Inr (ErrorRecord (''No results found for part number: '' @ pn)),
        snd (findPartSelectUrlViaDDG w pn (snd (findPartSelectUrlViaSearch w pn tr))))"
  by (cases "findPartSelectUrlViaSearch w pn tr";
      cases "findPartSelectUrlViaDDG w pn (snd (findPartSelectUrlViaSearch w pn tr))")
     (simp add: searchPart_try_def)

lemma searchPart_try_fallback_found:
  "fst (findPartSelectUrlViaSearch w pn tr) = Inr None \<Longrightarrow>
   fst (findPartSelectUrlViaDDG w pn (snd (findPartSelectUrlViaSearch w pn tr))) = Inr (Some res) \<Longrightarrow>
     searchPart_try w pn tr =
       fetch_and_extract w pn res
         (snd (findPartSelectUrlViaDDG w pn (snd (findPartSelectUrlViaSearch w pn tr))))"
  by (cases "findPartSelectUrlViaSearch w pn tr";
      cases "findPartSelectUrlViaDDG w pn (snd (findPartSelectUrlViaSearch w pn tr))")
     (simp add: searchPart_try_def fetch_and_extract_def)

lemma searchPart_returns: "\<exists>r. fst (searchPart w pn tr) = Inr r"
  unfolding searchPart_def by (rule try_catch_returns) simp

lemma searchPart_error_nonempty:
  assumes "fst (searchPart w pn tr) = Inr (ErrorRecord msg)"
  shows "msg \<noteq> []"
proof (cases "fst (searchPart_try w pn tr)")
  case (Inl e)
  then have "fst (searchPart w pn tr) = Inr (ErrorRecord (''Failed to search for part: '' @ message e))"
    unfolding searchPart_def by (rule try_catch_Inl)
  with assms show ?thesis by auto
next
  case (Inr v)
  then have v: "fst (searchPart w pn tr) = Inr v"
    unfolding searchPart_def by (rule try_catch_Inr)
  show ?thesis
  proof (cases "fst (findPartSelectUrlViaSearch w pn tr)")
    case (Inl e)
    then show ?thesis using Inr searchPart_try_primary_raises [of w pn tr e] by simp
  next
    case P: (Inr rp)
    show ?thesis
    proof (cases rp)
      case (Some res)
      then have "searchPart_try w pn tr = fetch_and_extract w pn res (snd (findPartSelectUrlViaSearch w pn tr))"
        using P by (simp add: searchPart_try_primary_found)
      then show ?thesis using Inr v assms fetch_and_extract_record by fastforce
    next
      case None
      show ?thesis
      proof (cases "fst (findPartSelectUrlViaDDG w pn (snd (findPartSelectUrlViaSearch w pn tr)))")
        case (Inl e)
        then show ?thesis using Inr P None searchPart_try_fallback_raises [of w pn tr e] by simp
      next
        case D: (Inr rd)
        show ?thesis
        proof (cases rd)
          case None2: None
          then show ?thesis
            using Inr v assms P None D searchPart_try_nothing_found [of w pn tr] by auto
        next
          case (Some res)
          then have "searchPart_try w pn tr = fetch_and_extract w pn res
             (snd (findPartSelectUrlViaDDG w pn (snd (findPartSelectUrlViaSearch w pn tr))))"
            using P None D by (simp add: searchPart_try_fallback_found)
          then show ?thesis using Inr v assms fetch_and_extract_record by fastforce
        qed
      qed
    qed
  qed
qed

lemma searchPart_trace: "snd (searchPart w pn tr) = snd (searchPart_try w pn tr)"
  unfolding searchPart_def by (rule try_catch_trace)

subsection \<open>Runs in the concrete worlds\<close>

lemmas world_defs =
  plain_world_def stay_put_def leaf_def BASE_URL_def

lemmas string_defs =
  toUpperCase_def toLowerCase_def toUpperChar_def toLowerChar_def lower_letters_def upper_letters_def
  js_trim_def is_space_def startsWith_def sel_text_def sel_first_def sel_attr_def

lemma offline_primary:
  "findPartSelectUrlViaSearch offline_world ''PS123'' [] =
     (Inr None, [PsSearchStart ''PS123'',
                 Puppeteer ''https://www.partselect.com/api/search/?searchterm=PS123''])"
  by (simp add: findPartSelectUrlViaSearch_def offline_world_def plain_world_def BASE_URL_def)

lemma offline_fallback:
  "fst (findPartSelectUrlViaDDG offline_world ''PS123'' tr) = Inr None"
  by (simp add: findPartSelectUrlViaDDG_def offline_world_def plain_world_def ddg_response_def)

lemma crashed_try:
  "fst (searchPart_try crashed_world ''PS123'' []) = Inl (Error ''Failed to launch the browser process'')"
  by (simp add: searchPart_try_def findPartSelectUrlViaSearch_def crashed_world_def plain_world_def)

lemma offline_fetch:
  "fetchPageWithPuppeteer offline_world u tr = (Inl (Error ''net::ERR_INTERNET_DISCONNECTED''), tr @ [Puppeteer u])"
  by (simp add: fetchPageWithPuppeteer_def offline_world_def plain_world_def Let_def)

lemma offline_slug:
  "encodeURIComponent offline_world (replace_ws (''dishwasher'' @ '' '' @ ''not draining''))
     = Inr ''dishwasher-not-draining''"
  by (simp add: offline_world_def plain_world_def replace_ws_def is_space_def)

lemma heading_primary:
  "findPartSelectUrlViaSearch heading_world ''PS11752778'' [] =
     (Inr (Some \<lparr> r_url = ''https://www.partselect.com/api/search/?searchterm=PS11752778'',
                    r_method = ''ps-search'' \<rparr>),
      [PsSearchStart ''PS11752778'',
       Puppeteer ''https://www.partselect.com/api/search/?searchterm=PS11752778''])"
  by (simp add: findPartSelectUrlViaSearch_def ps_search_landed_def heading_world_def
        heading_document_def world_defs string_defs Let_def)

lemma heading_fetch:
  "fetchPageWithPuppeteer heading_world u tr = (Inr ''<html>'', tr @ [Puppeteer u])"
  by (simp add: fetchPageWithPuppeteer_def heading_world_def world_defs Let_def)

lemma heading_extract:
  "extractPartDetails heading_document ''PS11752778'' =
     Inr \<lparr> partNumber = ''PS11752778'', title = ''Door Shelf Bin PS11752778'', price = [],
           description = [], inStock = False, imageUrl = Some [], installationSteps = [],
           videos = [], symptoms = [], compatibilityNote = [] \<rparr>"
  by (simp add: extractPartDetails_def heading_document_def leaf_def string_defs Let_def
        str_or_def js_or_def truthy_def on_string_def substring_def absolute_image_def
        step_texts_def video_hrefs_def symptom_texts_def slice0_def)

lemma heading_search:
  "fst (searchPart heading_world ''PS11752778'' []) =
     Inr (PartRecord
       \<lparr> partNumber = ''PS11752778'', title = ''Door Shelf Bin PS11752778'', price = [],
         description = [], inStock = False, imageUrl = Some [], installationSteps = [],
         videos = [], symptoms = [], compatibilityNote = [],
         sourceMethod = ''ps-search'',
         url = ''https://www.partselect.com/api/search/?searchterm=PS11752778'' \<rparr>)"
proof -
  have "cheerio_load heading_world ''<html>'' = heading_document"
    by (simp add: heading_world_def plain_world_def)
  then show ?thesis
    by (simp add: searchPart_def try_catch_def searchPart_try_def heading_primary heading_fetch
          heading_extract part_details.defs part_record.defs)
qed

lemma not_found_page:
  "cheerio_load not_found_world ''<html>'' = not_found_document"
  by (simp add: not_found_world_def plain_world_def)

lemma model_fetch:
  "fetchPageWithPuppeteer model_world u tr = (Inr ''<html>'', tr @ [Puppeteer u])"
  by (simp add: fetchPageWithPuppeteer_def model_world_def world_defs Let_def)

lemma model_page: "cheerio_load model_world ''<html>'' = model_document"
  by (simp add: model_world_def plain_world_def)

lemma model_search:
  "fst (searchPart model_world ''PS123'' tr) = Inr (ErrorRecord ''No results found for part number: PS123'')"
  by (simp add: searchPart_def try_catch_def searchPart_try_def findPartSelectUrlViaSearch_def
        findPartSelectUrlViaDDG_def ddg_response_def ps_search_landed_def link_step_def
        model_world_def model_document_def world_defs string_defs Let_def)

lemma tips_run:
  "fst (getTroubleshootingInfo tips_world ''dishwasher'' ''not draining'' []) =
     Inr \<lparr> appliance = ''dishwasher'', symptom = ''not draining'',
           tips = [''Clean the drain filter and check the hose.''],
           suggestedParts = [\<lparr> sp_name = ''Drain Pump'', sp_number = ''PS11752778'' \<rparr>],
           t_message = ''Found troubleshooting information for dishwasher not draining.'' \<rparr>"
  by (simp add: getTroubleshootingInfo_def try_catch_def getTroubleshootingInfo_try_def
        fetchPageWithPuppeteer_def tips_world_def tips_document_def world_defs string_defs
        replace_ws_def tip_texts_def suggested_of_def slice0_def Let_def)

subsection \<open>searchPart returns an error record and never throws\<close>

text \<open>
  Claim C2. \<open>searchPart\<close> never throws: it always returns a result. When the site search and
  then the search-engine fallback both return null, the result is the error record
  \<open>No results found for part number: <identifier>\<close>, whose text contains the identifier. An
  exception raised anywhere in the \<open>try\<close> block becomes the error record
  \<open>Failed to search for part: <message>\<close>.
\<close>

theorem searchPart_error_record:
  "(\<exists>r. fst (searchPart w pn tr) = Inr r)
   \<and> (fst (findPartSelectUrlViaSearch w pn tr) = Inr None
        \<and> fst (findPartSelectUrlViaDDG w pn (snd (findPartSelectUrlViaSearch w pn tr))) = Inr None
      \<longrightarrow> fst (searchPart w pn tr) = Inr (ErrorRecord (''No results found for part number: '' @ pn))
          \<and> js_includes (''No results found for part number: '' @ pn) pn)
   \<and> (\<forall>e. fst (searchPart_try w pn tr) = Inl e
      \<longrightarrow> fst (searchPart w pn tr) = Inr (ErrorRecord (''Failed to search for part: '' @ message e)))"
proof (intro conjI impI allI)
  show "\<exists>r. fst (searchPart w pn tr) = Inr r"
    unfolding searchPart_def by (rule try_catch_returns) simp
next
  assume "fst (findPartSelectUrlViaSearch w pn tr) = Inr None
        \<and> fst (findPartSelectUrlViaDDG w pn (snd (findPartSelectUrlViaSearch w pn tr))) = Inr None"
  then have "fst (searchPart_try w pn tr) = Inr (ErrorRecord (''No results found for part number: '' @ pn))"
    by (simp add: searchPart_try_nothing_found)
  then show "fst (searchPart w pn tr) = Inr (ErrorRecord (''No results found for part number: '' @ pn))"
    unfolding searchPart_def by (rule try_catch_Inr)
next
  show "js_includes (''No results found for part number: '' @ pn) pn"
    by (rule js_includes_append)
next
  fix e
  assume "fst (searchPart_try w pn tr) = Inl e"
  then show "fst (searchPart w pn tr) = Inr (ErrorRecord (''Failed to search for part: '' @ message e))"
    unfolding searchPart_def by (rule try_catch_Inl)
qed

theorem searchPart_error_record_witness:
  "fst (searchPart offline_world ''PS123'' []) = Inr (ErrorRecord ''No results found for part number: PS123'')
   \<and> js_includes ''No results found for part number: PS123'' ''PS123''
   \<and> fst (searchPart crashed_world ''PS123'' []) =
       Inr (ErrorRecord ''Failed to search for part: Failed to launch the browser process'')"
  using searchPart_error_record [of offline_world "''PS123''" "[]"]
        searchPart_error_record [of crashed_world "''PS123''" "[]"]
        offline_primary offline_fallback crashed_try
  by simp

subsection \<open>The order of the strategies\<close>

text \<open>
  Claim C3. Every run of \<open>searchPart\<close> enters the site search first, and enters it once. The
  fallback is entered exactly when the site search returned null; when the site search
  returned a result, no event of the fallback (its entry, its request) occurs.
\<close>

theorem searchPart_strategy_order:
  "\<exists>evs. snd (searchPart w pn tr) = tr @ PsSearchStart pn # evs
     \<and> PsSearchStart pn \<notin> set evs
     \<and> (DdgStart pn \<in> set evs) = (fst (findPartSelectUrlViaSearch w pn tr) = Inr None)
     \<and> (\<forall>res. fst (findPartSelectUrlViaSearch w pn tr) = Inr (Some res)
            \<longrightarrow> filter ddg_event evs = [])"
proof -
  obtain evs1 where p: "snd (findPartSelectUrlViaSearch w pn tr) = tr @ PsSearchStart pn # evs1"
    and evs1: "filter ddg_event evs1 = []" and once: "PsSearchStart pn \<notin> set evs1"
    using primary_trace by blast
  have no_ddg: "DdgStart pn \<notin> set evs1"
  proof
    assume "DdgStart pn \<in> set evs1"
    then have "DdgStart pn \<in> set (filter ddg_event evs1)" by (simp add: ddg_event_def)
    with evs1 show False by simp
  qed
  show ?thesis
  proof (cases "fst (findPartSelectUrlViaSearch w pn tr)")
    case (Inl e)
    then have "snd (searchPart w pn tr) = tr @ PsSearchStart pn # evs1"
      using p searchPart_try_primary_raises [of w pn tr e] by (simp add: searchPart_trace)
    then show ?thesis using Inl evs1 once no_ddg by auto
  next
    case P: (Inr rp)
    show ?thesis
    proof (cases rp)
      case (Some res)
      then have "snd (searchPart w pn tr) = tr @ PsSearchStart pn # (evs1 @ [Puppeteer (r_url res)])"
        using P p searchPart_try_primary_found [of w pn tr res]
        by (simp add: searchPart_trace fetch_and_extract_trace)
      moreover have "filter ddg_event (evs1 @ [Puppeteer (r_url res)]) = []"
        using evs1 by (simp add: ddg_event_def)
      moreover have "PsSearchStart pn \<notin> set (evs1 @ [Puppeteer (r_url res)])"
        using once by simp
      moreover have "DdgStart pn \<notin> set (evs1 @ [Puppeteer (r_url res)])"
        using no_ddg by simp
      ultimately show ?thesis using P Some by auto
    next
      case None
      obtain evs2 where d: "snd (findPartSelectUrlViaDDG w pn (tr @ PsSearchStart pn # evs1))
                             = (tr @ PsSearchStart pn # evs1) @ DdgStart pn # evs2"
        and evs2: "PsSearchStart pn \<notin> set evs2"
        using ddg_trace_strict by blast
      let ?D = "findPartSelectUrlViaDDG w pn (snd (findPartSelectUrlViaSearch w pn tr))"
      have "\<exists>evs3. snd (searchPart w pn tr) = tr @ PsSearchStart pn # (evs1 @ DdgStart pn # evs2 @ evs3)
                \<and> PsSearchStart pn \<notin> set evs3"
      proof (cases "fst ?D")
        case (Inl e)
        then have "snd (searchPart w pn tr) = tr @ PsSearchStart pn # (evs1 @ DdgStart pn # evs2 @ [])"
          using P None p d searchPart_try_fallback_raises [of w pn tr e]
          by (simp add: searchPart_trace)
        then show ?thesis by (intro exI [of _ "[]"]) simp
      next
        case D: (Inr rd)
        show ?thesis
        proof (cases rd)
          case None2: None
          then have "snd (searchPart w pn tr) = tr @ PsSearchStart pn # (evs1 @ DdgStart pn # evs2 @ [])"
            using P None D p d searchPart_try_nothing_found [of w pn tr]
            by (simp add: searchPart_trace)
          then show ?thesis by (intro exI [of _ "[]"]) simp
        next
          case (Some res)
          then have "snd (searchPart w pn tr)
                       = tr @ PsSearchStart pn # (evs1 @ DdgStart pn # evs2 @ [Puppeteer (r_url res)])"
            using P None D p d searchPart_try_fallback_found [of w pn tr res]
            by (simp add: searchPart_trace fetch_and_extract_trace)
          then show ?thesis by (intro exI [of _ "[Puppeteer (r_url res)]"]) simp
        qed
      qed
      then obtain evs3 where
          t: "snd (searchPart w pn tr) = tr @ PsSearchStart pn # (evs1 @ DdgStart pn # evs2 @ evs3)"
          and evs3: "PsSearchStart pn \<notin> set evs3"
        by blast
      have "PsSearchStart pn \<notin> set (evs1 @ DdgStart pn # evs2 @ evs3)"
        using once evs2 evs3 by simp
      moreover have "DdgStart pn \<in> set (evs1 @ DdgStart pn # evs2 @ evs3)" by simp
      ultimately show ?thesis using t P None by auto
    qed
  qed
qed

theorem searchPart_strategy_order_witness:
  "hd (snd (searchPart heading_world ''PS11752778'' [])) = PsSearchStart ''PS11752778''
   \<and> filter ddg_event (tl (snd (searchPart heading_world ''PS11752778'' []))) = []
   \<and> DdgStart ''PS123'' \<in> set (tl (snd (searchPart offline_world ''PS123'' [])))"
  using searchPart_strategy_order [of heading_world "''PS11752778''" "[]"]
        searchPart_strategy_order [of offline_world "''PS123''" "[]"]
        heading_primary offline_primary
  by auto

subsection \<open>The source method of a found part\<close>

text \<open>
  Claim C5, as the code has it. A part record returned by \<open>searchPart\<close> echoes the
  identifier in \<open>partNumber\<close>, and its \<open>sourceMethod\<close> is one of the two strings the
  strategies use, \<open>ps-search\<close> and \<open>ddg\<close>. When the site search found the address, the
  \<open>sourceMethod\<close> is \<open>ps-search\<close> and \<open>url\<close> is the address found.
\<close>

theorem searchPart_source_method:
  assumes "fst (searchPart w pn tr) = Inr (PartRecord r)"
  shows "partNumber r = pn
     \<and> (sourceMethod r = ''ps-search'' \<or> sourceMethod r = ''ddg'')
     \<and> (\<forall>res. fst (findPartSelectUrlViaSearch w pn tr) = Inr (Some res)
           \<longrightarrow> sourceMethod r = ''ps-search'' \<and> url r = r_url res)"
proof -
  have tried: "fst (searchPart_try w pn tr) = Inr (PartRecord r)"
  proof (cases "fst (searchPart_try w pn tr)")
    case (Inl e)
    then have "fst (searchPart w pn tr) = Inr (ErrorRecord (''Failed to search for part: '' @ message e))"
      unfolding searchPart_def by (rule try_catch_Inl)
    with assms show ?thesis by simp
  next
    case (Inr v)
    then have "fst (searchPart w pn tr) = Inr v"
      unfolding searchPart_def by (rule try_catch_Inr)
    with assms Inr show ?thesis by simp
  qed
  show ?thesis
  proof (cases "fst (findPartSelectUrlViaSearch w pn tr)")
    case (Inl e)
    then show ?thesis using tried searchPart_try_primary_raises [of w pn tr e] by simp
  next
    case P: (Inr rp)
    show ?thesis
    proof (cases rp)
      case (Some res)
      then have "fst (fetch_and_extract w pn res (snd (findPartSelectUrlViaSearch w pn tr)))
                   = Inr (PartRecord r)"
        using P tried searchPart_try_primary_found [of w pn tr res] by simp
      then have "partNumber r = pn \<and> sourceMethod r = r_method res \<and> url r = r_url res"
        using fetch_and_extract_record by fastforce
      moreover have "r_method res = ''ps-search''"
        using P Some primary_method by blast
      ultimately show ?thesis using P Some by simp
    next
      case None
      show ?thesis
      proof (cases "fst (findPartSelectUrlViaDDG w pn (snd (findPartSelectUrlViaSearch w pn tr)))")
        case (Inl e)
        then show ?thesis using tried P None searchPart_try_fallback_raises [of w pn tr e] by simp
      next
        case D: (Inr rd)
        show ?thesis
        proof (cases rd)
          case None2: None
          then show ?thesis
            using tried P None D searchPart_try_nothing_found [of w pn tr] by simp
        next
          case (Some res)
          then have "fst (fetch_and_extract w pn res
                       (snd (findPartSelectUrlViaDDG w pn (snd (findPartSelectUrlViaSearch w pn tr)))))
                     = Inr (PartRecord r)"
            using P None D tried searchPart_try_fallback_found [of w pn tr res] by simp
          then have "partNumber r = pn \<and> sourceMethod r = r_method res"
            using fetch_and_extract_record by fastforce
          moreover have "r_method res = ''ddg''"
            using D Some ddg_method by blast
          ultimately show ?thesis using P None by simp
        qed
      qed
    qed
  qed
qed

theorem searchPart_source_method_witness:
  "\<exists>r. fst (searchPart heading_world ''PS11752778'' []) = Inr (PartRecord r)
     \<and> partNumber r = ''PS11752778'' \<and> sourceMethod r = ''ps-search''
     \<and> url r = ''https://www.partselect.com/api/search/?searchterm=PS11752778''"
  using searchPart_source_method [OF heading_search] heading_search heading_primary by simp

text \<open>
  The claim as stated has \<open>sourceMethod\<close> equal to \<open>primary\<close>. On a search page whose heading
  contains the identifier the site search succeeds, and the record says \<open>ps-search\<close>.
\<close>

theorem sourceMethod_is_not_primary:
  "fst (findPartSelectUrlViaSearch heading_world ''PS11752778'' []) =
       Inr (Some \<lparr> r_url = ''https://www.partselect.com/api/search/?searchterm=PS11752778'',
                    r_method = ''ps-search'' \<rparr>)
   \<and> (case fst (searchPart heading_world ''PS11752778'' []) of
        Inr (PartRecord r) \<Rightarrow>
          partNumber r = ''PS11752778'' \<and> sourceMethod r = ''ps-search'' \<and> sourceMethod r \<noteq> ''primary''
      | _ \<Rightarrow> False)"
  by (simp add: heading_primary heading_search)

subsection \<open>A page titled as an error\<close>

text \<open>
  Claim C6, as the code has it. When the browser calls succeed and the address landed on
  does not itself pass the test for a part page (it contains \<open>.htm\<close> and the identifier),
  a page whose title contains \<open>error\<close> or \<open>not found\<close>, in any letter case, makes the site
  search return null, whatever the heading and the links of the page are.
\<close>

theorem error_title_returns_null:
  assumes "encodeURIComponent w pn = Inr q"
    and "navigate w (tr @ [PsSearchStart pn]) (BASE_URL @ ''/api/search/?searchterm='' @ q) = nav"
    and "setup_error nav = None" and "landed nav = Inr finalUrl"
    and "content nav = Inr html" and "close_error nav = None"
    and "\<not> (js_includes finalUrl ''.htm'' \<and> js_includes (toUpperCase finalUrl) (toUpperCase pn))"
    and "js_includes (toLowerCase (js_trim (sel_text (query (cheerio_load w html) ''title'')))) ''error''
         \<or> js_includes (toLowerCase (js_trim (sel_text (query (cheerio_load w html) ''title'')))) ''not found''"
  shows "ps_search_landed w pn finalUrl (Inr html) = Inr None
         \<and> fst (findPartSelectUrlViaSearch w pn tr) = Inr None"
proof -
  have body: "ps_search_landed w pn finalUrl (Inr html) = Inr None"
    using assms(7,8) by (auto simp: ps_search_landed_def Let_def)
  then have "fst (findPartSelectUrlViaSearch w pn tr) = Inr None"
    using assms(1-6) by (simp add: findPartSelectUrlViaSearch_def Let_def)
  with body show ?thesis by simp
qed

theorem error_title_returns_null_witness:
  "fst (findPartSelectUrlViaSearch not_found_world ''PS11752778'' []) = Inr None
   \<and> js_includes (toUpperCase (js_trim (sel_text (sel_first (query not_found_document ''h1'')))))
        (toUpperCase ''PS11752778'')
   \<and> foldl (link_step ''PS11752778'') None (query not_found_document ''a[href*=\".htm\"]'')
       = Some ''https://www.partselect.com/PS11752778-Bin.htm''"
proof -
  have "fst (findPartSelectUrlViaSearch not_found_world ''PS11752778'' []) = Inr None"
    using error_title_returns_null [of not_found_world "''PS11752778''" "''PS11752778''" "[]"
            "stay_put ''https://www.partselect.com/api/search/?searchterm=PS11752778''"
            "''https://www.partselect.com/api/search/?searchterm=PS11752778''" "''<html>''"]
    by (simp add: not_found_page)
       (simp add: not_found_world_def not_found_document_def world_defs string_defs)
  moreover have "js_includes (toUpperCase (js_trim (sel_text (sel_first (query not_found_document ''h1'')))))
        (toUpperCase ''PS11752778'')"
    by (simp add: not_found_document_def leaf_def string_defs)
  moreover have "foldl (link_step ''PS11752778'') None (query not_found_document ''a[href*=\".htm\"]'')
       = Some ''https://www.partselect.com/PS11752778-Bin.htm''"
    by (simp add: not_found_document_def leaf_def link_step_def truthy_def BASE_URL_def string_defs)
  ultimately show ?thesis by simp
qed

text \<open>
  The claim as stated lets the title decide alone. The test of the landed address comes
  first: a redirect to a part page succeeds although the page is titled as an error.
\<close>

theorem error_title_after_redirect:
  "js_includes (toLowerCase (js_trim (sel_text (query (cheerio_load redirect_error_world ''<html>'') ''title''))))
     ''error''
   \<and> fst (findPartSelectUrlViaSearch redirect_error_world ''PS11752778'' []) =
       Inr (Some \<lparr> r_url = ''https://www.partselect.com/PS11752778-Bin.htm'', r_method = ''ps-search'' \<rparr>)"
  by (simp add: findPartSelectUrlViaSearch_def ps_search_landed_def redirect_error_world_def
        world_defs string_defs Let_def)

subsection \<open>The compatibility signal\<close>

lemma checkCompatibility_try_fetched:
  assumes "encodeURIComponent w mn = Inr m"
    and "fetchPageWithPuppeteer w (BASE_URL @ ''/Models/'' @ m @ ''/'') tr = (Inr html, tr1)"
    and "fst (searchPart w pn tr1) = Inr found"
  shows "fst (checkCompatibility_try w pn mn tr) =
     Inr (CompatInfo
       \<lparr> ci_partNumber = pn, ci_modelNumber = mn,
         modelName = js_trim (sel_text (sel_first (query (cheerio_load w html) ''h1''))),
         isCompatible = js_includes (toLowerCase (root_text (cheerio_load w html))) (toLowerCase pn),
         partInfo = (if truthy (error_of found) then None else Some found),
         ci_message =
           (if js_includes (toLowerCase (root_text (cheerio_load w html))) (toLowerCase pn)
            then ''Part '' @ pn @ '' appears to be compatible with model '' @ mn @ ''.''
            else ''Could not confirm compatibility between '' @ pn @ '' and ''
                   @ mn @ ''. Check PartSelect.com directly.'') \<rparr>)"
  using assms
  by (cases "searchPart w pn tr1") (simp add: checkCompatibility_try_def Let_def)

lemma partInfo_null:
  assumes "fst (searchPart w pn tr1) = Inr found"
  shows "((if truthy (error_of found) then None else Some found) = None)
           = (\<exists>msg. fst (searchPart w pn tr1) = Inr (ErrorRecord msg))"
proof (cases found)
  case (ErrorRecord msg)
  then have "msg \<noteq> []" using assms searchPart_error_nonempty by blast
  then show ?thesis using assms ErrorRecord by (simp add: error_of_def truthy_def)
next
  case (PartRecord r)
  then show ?thesis using assms by (simp add: error_of_def truthy_def)
qed

text \<open>
  Claim C7. When the model page is fetched, \<open>checkCompatibility\<close> returns a result whose
  \<open>isCompatible\<close> is exactly whether the lower-cased text of the page contains the
  lower-cased identifier. When it is false the message is
  \<open>Could not confirm compatibility between <part> and <model>. Check PartSelect.com directly.\<close>
  And \<open>partInfo\<close> is null exactly when the \<open>searchPart\<close> call made after the fetch returned
  an error record.
\<close>

theorem checkCompatibility_signal:
  assumes "encodeURIComponent w mn = Inr m"
    and "fetchPageWithPuppeteer w (BASE_URL @ ''/Models/'' @ m @ ''/'') tr = (Inr html, tr1)"
  shows "\<exists>c. fst (checkCompatibility w pn mn tr) = Inr (CompatInfo c)
     \<and> isCompatible c = js_includes (toLowerCase (root_text (cheerio_load w html))) (toLowerCase pn)
     \<and> (\<not> isCompatible c \<longrightarrow>
          ci_message c = ''Could not confirm compatibility between '' @ pn @ '' and '' @ mn
                           @ ''. Check PartSelect.com directly.''
          \<and> js_includes (ci_message c) ''Check PartSelect.com directly'')
     \<and> (partInfo c = None) = (\<exists>msg. fst (searchPart w pn tr1) = Inr (ErrorRecord msg))"
proof -
  obtain found where found: "fst (searchPart w pn tr1) = Inr found"
    using searchPart_returns by blast
  define c where "c =
       \<lparr> ci_partNumber = pn, ci_modelNumber = mn,
         modelName = js_trim (sel_text (sel_first (query (cheerio_load w html) ''h1''))),
         isCompatible = js_includes (toLowerCase (root_text (cheerio_load w html))) (toLowerCase pn),
         partInfo = (if truthy (error_of found) then None else Some found),
         ci_message =
           (if js_includes (toLowerCase (root_text (cheerio_load w html))) (toLowerCase pn)
            then ''Part '' @ pn @ '' appears to be compatible with model '' @ mn @ ''.''
            else ''Could not confirm compatibility between '' @ pn @ '' and ''
                   @ mn @ ''. Check PartSelect.com directly.'') \<rparr>"
  have "fst (checkCompatibility_try w pn mn tr) = Inr (CompatInfo c)"
    unfolding c_def using assms found by (rule checkCompatibility_try_fetched)
  then have r: "fst (checkCompatibility w pn mn tr) = Inr (CompatInfo c)"
    unfolding checkCompatibility_def by (rule try_catch_Inr)
  have s: "isCompatible c = js_includes (toLowerCase (root_text (cheerio_load w html))) (toLowerCase pn)"
    by (simp add: c_def)
  have advice: "js_includes ((''Could not confirm compatibility between '' @ pn @ '' and '' @ mn @ ''. '')
                  @ ''Check PartSelect.com directly'' @ ''.'') ''Check PartSelect.com directly''"
    by (rule js_includes_append3)
  have m: "\<not> isCompatible c \<longrightarrow>
          ci_message c = ''Could not confirm compatibility between '' @ pn @ '' and '' @ mn
                           @ ''. Check PartSelect.com directly.''
          \<and> js_includes (ci_message c) ''Check PartSelect.com directly''"
    using advice by (simp add: c_def)
  have p: "(partInfo c = None) = (\<exists>msg. fst (searchPart w pn tr1) = Inr (ErrorRecord msg))"
    using partInfo_null [OF found] by (simp add: c_def)
  show ?thesis
    by (rule exI [of _ c]) (intro conjI r s m p)
qed

theorem checkCompatibility_signal_witness:
  "\<exists>c. fst (checkCompatibility model_world ''PS123'' ''ABC1'' []) = Inr (CompatInfo c)
     \<and> isCompatible c = False
     \<and> ci_message c = ''Could not confirm compatibility between PS123 and ABC1. Check PartSelect.com directly.''
     \<and> partInfo c = None"
proof -
  have enc: "encodeURIComponent model_world ''ABC1'' = Inr ''ABC1''"
    by (simp add: model_world_def plain_world_def)
  have signal: "js_includes (toLowerCase (root_text model_document)) (toLowerCase ''PS123'') = False"
    by (simp add: model_document_def string_defs)
  show ?thesis
    using checkCompatibility_signal [of model_world "''ABC1''" "''ABC1''" "[]" "''<html>''" _ "''PS123''",
            OF enc model_fetch]
          model_search [of "[] @ [Puppeteer (BASE_URL @ ''/Models/'' @ ''ABC1'' @ ''/'')]"]
    by (auto simp: model_page signal)
qed

subsection \<open>Troubleshooting advice\<close>

lemma tip_texts_long: "t \<in> set (slice0 (tip_texts els) n) \<Longrightarrow> length t > 20"
proof -
  assume "t \<in> set (slice0 (tip_texts els) n)"
  then have "t \<in> set (tip_texts els)" unfolding slice0_def by (rule in_set_takeD)
  then show ?thesis by (simp add: tip_texts_def)
qed

lemma suggested_of_length: "length (suggested_of el) \<le> 1"
  by (simp add: suggested_of_def Let_def)

lemma concat_suggested_length: "length (concat (map suggested_of els)) \<le> length els"
proof (induction els)
  case Nil
  show ?case by simp
next
  case (Cons el els)
  then show ?case using suggested_of_length [of el] by simp
qed

lemma suggested_capped: "length (concat (map suggested_of (slice0 els 5))) \<le> 5"
proof -
  have "length (concat (map suggested_of (slice0 els 5))) \<le> length (slice0 els 5)"
    by (rule concat_suggested_length)
  also have "\<dots> \<le> 5" by (rule slice0_length)
  finally show ?thesis .
qed

lemma advisory_message: "js_includes (t_message (advisory a s)) ''general guidance''"
proof -
  have "js_includes (''Could not fetch specific troubleshooting data. Will provide '' @ ''general guidance'' @ ''.'')
          ''general guidance''"
    by (rule js_includes_append3)
  then show ?thesis by (simp add: advisory_def)
qed

lemma advisory_bounded: "bounded_advice a s (advisory a s)"
  by (simp add: bounded_advice_def advisory_def)

lemma getTroubleshootingInfo_try_bounded:
  "fst (getTroubleshootingInfo_try w a s tr) = Inr r \<Longrightarrow> bounded_advice a s r"
proof -
  assume r: "fst (getTroubleshootingInfo_try w a s tr) = Inr r"
  show ?thesis
  proof (cases "encodeURIComponent w (replace_ws (a @ '' '' @ s))")
    case (Inl e)
    then show ?thesis using r by (simp add: getTroubleshootingInfo_try_def Let_def)
  next
    case (Inr slug)
    obtain x tr1 where f: "fetchPageWithPuppeteer w (BASE_URL @ ''/Repair/Help/'' @ slug @ ''/'') tr = (x, tr1)"
      by (cases "fetchPageWithPuppeteer w (BASE_URL @ ''/Repair/Help/'' @ slug @ ''/'') tr")
    show ?thesis
    proof (cases x)
      case (Inl e)
      then have "r = advisory a s"
        using r Inr f by (simp add: getTroubleshootingInfo_try_def Let_def)
      then show ?thesis by (simp add: advisory_bounded)
    next
      case html: (Inr html)
      have "r = \<lparr> appliance = a, symptom = s,
                  tips = slice0 (tip_texts (query (cheerio_load w html)
                                   ''.repair-help__tip, .repair-story, .help-content p'')) 5,
                  suggestedParts = concat (map suggested_of
                                     (slice0 (query (cheerio_load w html) ''.part-suggestion, .mega-m__part'') 5)),
                  t_message =
                    (if length (tip_texts (query (cheerio_load w html)
                                   ''.repair-help__tip, .repair-story, .help-content p'')) > 0
                     then ''Found troubleshooting information for '' @ a @ '' '' @ s @ ''.''
                     else ''Limited troubleshooting info available. Common causes and solutions will be provided.'') \<rparr>"
        using r Inr f html by (simp add: getTroubleshootingInfo_try_def Let_def)
      then show ?thesis
        by (simp add: bounded_advice_def slice0_length suggested_capped list_all_iff tip_texts_long)
    qed
  qed
qed

text \<open>
  Claim C8. \<open>getTroubleshootingInfo\<close> never throws. Its result echoes the appliance and the
  symptom, has at most 5 tips, each longer than 20 characters, and at most 5 suggested
  parts. When the fetch of the help page raises, the result has no tips and no suggested
  parts, and its message contains \<open>general guidance\<close>.
\<close>

theorem getTroubleshootingInfo_advisory:
  "(\<exists>r. fst (getTroubleshootingInfo w a s tr) = Inr r
        \<and> appliance r = a \<and> symptom r = s \<and> length (tips r) \<le> 5
        \<and> (\<forall>t \<in> set (tips r). length t > 20) \<and> length (suggestedParts r) \<le> 5)
   \<and> (\<forall>slug e tr1.
         encodeURIComponent w (replace_ws (a @ '' '' @ s)) = Inr slug
         \<and> fetchPageWithPuppeteer w (BASE_URL @ ''/Repair/Help/'' @ slug @ ''/'') tr = (Inl e, tr1)
       \<longrightarrow> fst (getTroubleshootingInfo w a s tr) =
             Inr \<lparr> appliance = a, symptom = s, tips = [], suggestedParts = [],
                   t_message = ''Could not fetch specific troubleshooting data. Will provide general guidance.'' \<rparr>
           \<and> js_includes ''Could not fetch specific troubleshooting data. Will provide general guidance.''
                ''general guidance'')"
proof (intro conjI allI impI)
  show "\<exists>r. fst (getTroubleshootingInfo w a s tr) = Inr r
        \<and> appliance r = a \<and> symptom r = s \<and> length (tips r) \<le> 5
        \<and> (\<forall>t \<in> set (tips r). length t > 20) \<and> length (suggestedParts r) \<le> 5"
  proof (cases "fst (getTroubleshootingInfo_try w a s tr)")
    case (Inl e)
    then have "fst (getTroubleshootingInfo w a s tr) = Inr (advisory a s)"
      unfolding getTroubleshootingInfo_def by (rule try_catch_Inl)
    then show ?thesis using advisory_bounded [of a s] by (simp add: bounded_advice_def list_all_iff)
  next
    case (Inr r)
    then have "fst (getTroubleshootingInfo w a s tr) = Inr r"
      unfolding getTroubleshootingInfo_def by (rule try_catch_Inr)
    then show ?thesis
      using getTroubleshootingInfo_try_bounded [OF Inr] by (simp add: bounded_advice_def list_all_iff)
  qed
next
  fix slug e tr1
  assume h: "encodeURIComponent w (replace_ws (a @ '' '' @ s)) = Inr slug
         \<and> fetchPageWithPuppeteer w (BASE_URL @ ''/Repair/Help/'' @ slug @ ''/'') tr = (Inl e, tr1)"
  then have "fst (getTroubleshootingInfo_try w a s tr) = Inr (advisory a s)"
    by (simp add: getTroubleshootingInfo_try_def Let_def)
  then have "fst (getTroubleshootingInfo w a s tr) = Inr (advisory a s)"
    unfolding getTroubleshootingInfo_def by (rule try_catch_Inr)
  then show "fst (getTroubleshootingInfo w a s tr) =
             Inr \<lparr> appliance = a, symptom = s, tips = [], suggestedParts = [],
                   t_message = ''Could not fetch specific troubleshooting data. Will provide general guidance.'' \<rparr>"
    by (simp add: advisory_def)
next
  show "js_includes ''Could not fetch specific troubleshooting data. Will provide general guidance.''
                ''general guidance''"
    using advisory_message [of "[]" "[]"] by (simp add: advisory_def)
qed

theorem getTroubleshootingInfo_advisory_witness:
  "fst (getTroubleshootingInfo offline_world ''dishwasher'' ''not draining'' []) =
     Inr \<lparr> appliance = ''dishwasher'', symptom = ''not draining'', tips = [], suggestedParts = [],
           t_message = ''Could not fetch specific troubleshooting data. Will provide general guidance.'' \<rparr>
   \<and> js_includes ''Could not fetch specific troubleshooting data. Will provide general guidance.''
        ''general guidance''
   \<and> (\<exists>r. fst (getTroubleshootingInfo tips_world ''dishwasher'' ''not draining'' []) = Inr r
          \<and> tips r = [''Clean the drain filter and check the hose.'']
          \<and> length ''Clean the drain filter and check the hose.'' > 20
          \<and> length (suggestedParts r) = 1)"
proof -
  have "\<exists>r. fst (getTroubleshootingInfo tips_world ''dishwasher'' ''not draining'' []) = Inr r
          \<and> tips r = [''Clean the drain filter and check the hose.'']
          \<and> length ''Clean the drain filter and check the hose.'' > 20
          \<and> length (suggestedParts r) = 1"
    using getTroubleshootingInfo_advisory [of tips_world "''dishwasher''" "''not draining''" "[]"]
          tips_run
    by auto
  then show ?thesis
    using getTroubleshootingInfo_advisory [of offline_world "''dishwasher''" "''not draining''" "[]"]
        offline_slug offline_fetch [of "BASE_URL @ ''/Repair/Help/'' @ ''dishwasher-not-draining'' @ ''/''" "[]"]
    by blast
qed

subsection \<open>Two callers during one launch\<close>

text \<open>
  Claim C9 says that a caller of \<open>getBrowser\<close> arriving during a launch waits for that
  launch and receives its handle. The code tests \<open>browserInstance\<close>, which is assigned only
  after the launch has completed: the second caller finds it empty and launches again.
  Two callers entering before either launch completes are handed two different browsers,
  both processes are live, and the variable keeps only the second.
\<close>

theorem concurrent_acquire_launches_twice:
  "foldl browser_step browser_start [Acquire 1, Acquire 2, LaunchDone 1, LaunchDone 2] =
     \<lparr> sess = \<lparr> browserInstance = Some 1, idleTimeout = Some 1, launches = 2, live = [0, 1],
                timers = [1], timers_made = 2, emitted = [] \<rparr>,
       launching = [], handed = [(1, Some 0), (2, Some 1)] \<rparr>"
  by (simp add: browser_step_def browser_start_def no_browser_def getBrowser_begin_def
        getBrowser_resume_def resetIdleTimeout_def Let_def)

subsection \<open>closeBrowser and the inactivity event\<close>

lemma clear_idle_fields:
  "browserInstance (clear_idle s) = browserInstance s"
  "idleTimeout (clear_idle s) = None"
  "emitted (clear_idle s) = emitted s"
  "idleTimeout s = Some t \<Longrightarrow> t \<notin> set (timers (clear_idle s))"
  by (simp_all add: clear_idle_def split: option.splits)

text \<open>
  Claim C10, as the code has it. \<open>closeBrowser\<close> emits the \<open>closed\<close> event with reason
  \<open>inactivity\<close> exactly when the reason is \<open>inactivity\<close>, a browser instance existed at the
  call, and its \<open>close\<close> completed. With no browser instance the call clears the pending idle
  timer, emits nothing and returns without error, whatever the reason.
\<close>

theorem closeBrowser_emits:
  "emitted (snd (closeBrowser reason outcome s)) =
     (if reason = ''inactivity'' \<and> browserInstance s \<noteq> None \<and> outcome = None
      then emitted s @ [''inactivity''] else emitted s)
   \<and> (browserInstance s = None \<longrightarrow>
        fst (closeBrowser reason outcome s) = Inr ()
        \<and> idleTimeout (snd (closeBrowser reason outcome s)) = None
        \<and> emitted (snd (closeBrowser reason outcome s)) = emitted s
        \<and> (\<forall>t. idleTimeout s = Some t \<longrightarrow> t \<notin> set (timers (snd (closeBrowser reason outcome s)))))"
proof (cases "browserInstance s")
  case None
  then have "closeBrowser reason outcome s = (Inr (), clear_idle s)"
    by (simp add: closeBrowser_def closeBrowser_begin_def Let_def clear_idle_fields)
  then show ?thesis using None by (simp add: clear_idle_fields)
next
  case (Some h)
  then have "closeBrowser reason outcome s = closeBrowser_resume reason outcome h (clear_idle s)"
    by (simp add: closeBrowser_def closeBrowser_begin_def Let_def clear_idle_fields)
  then show ?thesis
    using Some by (cases outcome) (simp_all add: closeBrowser_resume_def clear_idle_fields)
qed

theorem closeBrowser_emits_witness:
  "emitted (snd (closeBrowser ''inactivity'' None live_session)) = [''inactivity'']
   \<and> emitted (snd (closeBrowser ''manual'' None live_session)) = []
   \<and> fst (closeBrowser ''inactivity'' None stale_timer_session) = Inr ()
   \<and> idleTimeout (snd (closeBrowser ''inactivity'' None stale_timer_session)) = None
   \<and> emitted (snd (closeBrowser ''inactivity'' None stale_timer_session)) = []
   \<and> 3 \<notin> set (timers (snd (closeBrowser ''inactivity'' None stale_timer_session)))"
  using closeBrowser_emits [of "''inactivity''" None live_session]
        closeBrowser_emits [of "''manual''" None live_session]
        closeBrowser_emits [of "''inactivity''" None stale_timer_session]
  by (simp add: live_session_def stale_timer_session_def)

text \<open>
  The claim as stated needs only the reason and the browser instance. When \<open>close\<close> rejects,
  the call raises before the event is emitted, and the variable still holds the browser.
\<close>

theorem failed_close_emits_nothing:
  "browserInstance live_session \<noteq> None
   \<and> closeBrowser ''inactivity'' (Some (Error ''Protocol error (Browser.close): Target closed'')) live_session
       = (Inl (Error ''Protocol error (Browser.close): Target closed''),
          live_session \<lparr> timers := [], idleTimeout := None \<rparr>)
   \<and> emitted (live_session \<lparr> timers := [], idleTimeout := None \<rparr>) = []"
  by (simp add: closeBrowser_def closeBrowser_begin_def closeBrowser_resume_def clear_idle_def
        live_session_def Let_def)

subsection \<open>Serial callers stay within the limit\<close>

text \<open>
  A caller that finds \<open>RATE_LIMIT\<close> timestamps, none of them expired, is suspended until the
  oldest one expires.
\<close>

lemma full_window_suspends:
  assumes "length (oldest # rest) = RATE_LIMIT"
    and "now - RATE_WINDOW_MS \<le> oldest" and "now < oldest + RATE_WINDOW_MS"
  shows "waitForRateLimit_begin now now_push (oldest # rest)
           = (Waiting (oldest + RATE_WINDOW_MS - now), oldest # rest)"
  using assms by (simp add: waitForRateLimit_begin_def)

lemma newer_le_length: "newer b xs \<le> length xs"
  by (simp add: newer_def)

lemma newer_append: "newer b (xs @ [a]) = newer b xs + (if b < a then 1 else 0)"
  by (simp add: newer_def)

lemma in_window_le_newer: "length (in_window t xs) \<le> newer (t - RATE_WINDOW_MS) xs"
  unfolding in_window_def newer_def
  by (induction xs) auto

lemma newer_dropWhile:
  "c \<le> b \<Longrightarrow> newer b (dropWhile (\<lambda>x. x < c) xs) = newer b xs"
  by (induction xs) (auto simp: newer_def)

lemma newer_tl:
  "oldest \<le> b \<Longrightarrow> newer b (oldest # rest) = newer b rest"
  by (simp add: newer_def)

lemma push_keeps:
  assumes short: "Suc (length ts2) \<le> RATE_LIMIT"
    and bound: "\<forall>t. length (in_window t log) \<le> RATE_LIMIT"
    and held: "\<forall>b. c - RATE_WINDOW_MS \<le> b \<longrightarrow> newer b log \<le> newer b ts"
    and kept: "\<forall>b. a - RATE_WINDOW_MS \<le> b \<longrightarrow> newer b ts \<le> newer b ts2"
    and later: "c \<le> a"
  shows "length (ts2 @ [a]) \<le> RATE_LIMIT"
    and "\<forall>t. length (in_window t (log @ [a])) \<le> RATE_LIMIT"
    and "\<forall>b. a - RATE_WINDOW_MS \<le> b \<longrightarrow> newer b (log @ [a]) \<le> newer b (ts2 @ [a])"
proof -
  show "length (ts2 @ [a]) \<le> RATE_LIMIT" using short by simp
  have chain: "newer b log \<le> newer b ts2" if "a - RATE_WINDOW_MS \<le> b" for b
  proof -
    have "c - RATE_WINDOW_MS \<le> b" using that later by simp
    then have "newer b log \<le> newer b ts" using held by blast
    also have "\<dots> \<le> newer b ts2" using kept that by blast
    finally show ?thesis .
  qed
  show "\<forall>t. length (in_window t (log @ [a])) \<le> RATE_LIMIT"
  proof
    fix t
    show "length (in_window t (log @ [a])) \<le> RATE_LIMIT"
    proof (cases "a \<le> t")
      case True
      have "length (in_window t (log @ [a])) \<le> Suc (length (in_window t log))"
        by (simp add: in_window_def)
      also have "\<dots> \<le> Suc (newer (t - RATE_WINDOW_MS) log)"
        using in_window_le_newer by simp
      also have "\<dots> \<le> Suc (newer (t - RATE_WINDOW_MS) ts2)"
        using chain [of "t - RATE_WINDOW_MS"] True by simp
      also have "\<dots> \<le> Suc (length ts2)"
        using newer_le_length by simp
      finally show ?thesis using short by simp
    next
      case False
      then have "in_window t (log @ [a]) = in_window t log"
        by (simp add: in_window_def)
      then show ?thesis using bound by simp
    qed
  qed
  show "\<forall>b. a - RATE_WINDOW_MS \<le> b \<longrightarrow> newer b (log @ [a]) \<le> newer b (ts2 @ [a])"
    using chain by (simp add: newer_append)
qed

lemma serial_inv_start: "serial_inv limiter_start"
  by (simp add: serial_inv_def limiter_start_def in_window_def newer_def)

lemma serial_inv_call:
  assumes inv: "serial_inv l" and idle: "suspended l = []"
    and step: "limiter_step l (Call t) = Some l'"
  shows "serial_inv l'"
proof -
  have now: "clock l \<le> t"
    using step by (simp add: limiter_step_def split: if_splits)
  define ts where "ts = requestTimestamps l"
  define ts1 where "ts1 = dropWhile (\<lambda>x. x < t - RATE_WINDOW_MS) ts"
  have len: "length ts \<le> RATE_LIMIT"
    and bound: "\<forall>u. length (in_window u (admitted l)) \<le> RATE_LIMIT"
    and held: "\<forall>b. clock l - RATE_WINDOW_MS \<le> b \<longrightarrow> newer b (admitted l) \<le> newer b ts"
    using inv by (simp_all add: serial_inv_def ts_def)
  have len1: "length ts1 \<le> RATE_LIMIT"
    using len length_dropWhile_le [of "\<lambda>x. x < t - RATE_WINDOW_MS" ts] by (simp add: ts1_def)
  have same1: "newer b ts1 = newer b ts" if "t - RATE_WINDOW_MS \<le> b" for b
    unfolding ts1_def using that by (rule newer_dropWhile)
  show ?thesis
  proof (cases "length ts1 \<ge> RATE_LIMIT")
    case False
    then have l': "l' = l \<lparr> requestTimestamps := ts1 @ [t], admitted := admitted l @ [t], clock := t \<rparr>"
      using step now by (simp add: limiter_step_def waitForRateLimit_begin_def Let_def ts1_def ts_def)
    have short: "Suc (length ts1) \<le> RATE_LIMIT" using False by simp
    have kept: "\<forall>b. t - RATE_WINDOW_MS \<le> b \<longrightarrow> newer b ts \<le> newer b ts1"
      using same1 by simp
    note push_keeps [OF short bound held kept now]
    then show ?thesis using idle by (simp add: serial_inv_def l')
  next
    case True
    then obtain oldest rest where ts1: "ts1 = oldest # rest"
      by (cases ts1) (simp_all add: RATE_LIMIT_def)
    show ?thesis
    proof (cases "oldest + RATE_WINDOW_MS - t > 0")
      case wait: True
      then have l': "l' = l \<lparr> requestTimestamps := ts1,
                              suspended := suspended l @ [t + (oldest + RATE_WINDOW_MS - t)],
                              clock := t \<rparr>"
        using step now True ts1
        by (simp add: limiter_step_def waitForRateLimit_begin_def Let_def ts1_def [symmetric] ts_def [symmetric])
      have "\<forall>b. t - RATE_WINDOW_MS \<le> b \<longrightarrow> newer b (admitted l) \<le> newer b ts1"
      proof (intro allI impI)
        fix b assume b: "t - RATE_WINDOW_MS \<le> b"
        then have "clock l - RATE_WINDOW_MS \<le> b" using now by simp
        then have "newer b (admitted l) \<le> newer b ts" using held by blast
        then show "newer b (admitted l) \<le> newer b ts1" using same1 [OF b] by simp
      qed
      then show ?thesis
        using len1 bound idle ts1 by (simp add: serial_inv_def l')
    next
      case False
      then have l': "l' = l \<lparr> requestTimestamps := rest @ [t], admitted := admitted l @ [t], clock := t \<rparr>"
        using step now True ts1
        by (simp add: limiter_step_def waitForRateLimit_begin_def Let_def ts1_def [symmetric] ts_def [symmetric])
      have short: "Suc (length rest) \<le> RATE_LIMIT" using len1 ts1 by simp
      have kept: "\<forall>b. t - RATE_WINDOW_MS \<le> b \<longrightarrow> newer b ts \<le> newer b rest"
      proof (intro allI impI)
        fix b assume b: "t - RATE_WINDOW_MS \<le> b"
        then have "oldest \<le> b" using False by simp
        then have "newer b ts1 = newer b rest" unfolding ts1 by (rule newer_tl)
        then show "newer b ts \<le> newer b rest" using same1 [OF b] by simp
      qed
      note push_keeps [OF short bound held kept now]
      then show ?thesis using idle by (simp add: serial_inv_def l')
    qed
  qed
qed

lemma serial_inv_wake:
  assumes inv: "serial_inv l" and step: "limiter_step l (Wake i t) = Some l'"
  shows "serial_inv l'"
proof -
  have now: "clock l \<le> t" and i: "i < length (suspended l)" and due: "suspended l ! i \<le> t"
    using step by (simp_all add: limiter_step_def split: if_splits)
  then have "suspended l \<noteq> []" by auto
  then obtain oldest rest where ts: "requestTimestamps l = oldest # rest"
    and sus: "suspended l = [oldest + RATE_WINDOW_MS]"
    using inv by (auto simp: serial_inv_def)
  have i0: "i = 0" using i sus by simp
  have expired: "oldest + RATE_WINDOW_MS \<le> t" using due sus i0 by simp
  have l': "l' = l \<lparr> requestTimestamps := rest @ [t], suspended := [],
                      admitted := admitted l @ [t], clock := t \<rparr>"
    using step now ts sus i0 expired
    by (simp add: limiter_step_def waitForRateLimit_resume_def)
  have len: "length (requestTimestamps l) \<le> RATE_LIMIT"
    and bound: "\<forall>u. length (in_window u (admitted l)) \<le> RATE_LIMIT"
    and held: "\<forall>b. clock l - RATE_WINDOW_MS \<le> b \<longrightarrow> newer b (admitted l) \<le> newer b (requestTimestamps l)"
    using inv by (simp_all add: serial_inv_def)
  have short: "Suc (length rest) \<le> RATE_LIMIT" using len ts by simp
  have kept: "\<forall>b. t - RATE_WINDOW_MS \<le> b \<longrightarrow> newer b (requestTimestamps l) \<le> newer b rest"
  proof (intro allI impI)
    fix b assume "t - RATE_WINDOW_MS \<le> b"
    then have "oldest \<le> b" using expired by simp
    then show "newer b (requestTimestamps l) \<le> newer b rest"
      unfolding ts by (simp add: newer_tl)
  qed
  note push_keeps [OF short bound held kept now]
  then show ?thesis by (simp add: serial_inv_def l')
qed

lemma serial_inv_run:
  "serial_inv l \<Longrightarrow> serial l evs \<Longrightarrow> limiter_run l evs = Some l' \<Longrightarrow> serial_inv l'"
proof (induction evs arbitrary: l)
  case Nil
  then show ?case by simp
next
  case (Cons ev evs)
  from Cons.prems(3) obtain l1 where step: "limiter_step l ev = Some l1"
    and rest: "limiter_run l1 evs = Some l'"
    by (auto split: option.splits)
  have "serial_inv l1"
  proof (cases ev)
    case (Call t)
    then have "suspended l = []" using Cons.prems(2) by simp
    then show ?thesis using Cons.prems(1) step Call serial_inv_call by blast
  next
    case (Wake i t)
    then show ?thesis using Cons.prems(1) step serial_inv_wake by blast
  qed
  moreover have "serial l1 evs" using Cons.prems(2) step by simp
  ultimately show ?case using Cons.IH rest by blast
qed

text \<open>
  When callers do not overlap, no window of \<open>RATE_WINDOW_MS\<close> holds more than \<open>RATE_LIMIT\<close>
  admissions.
\<close>

lemma serial_callers_bounded:
  assumes "serial limiter_start evs" and "limiter_run limiter_start evs = Some l"
  shows "length (in_window t (admitted l)) \<le> RATE_LIMIT"
  using serial_inv_run [OF serial_inv_start assms] by (simp add: serial_inv_def)

subsection \<open>Two callers waiting on a full window\<close>

text \<open>
  Claim C1 says that no window of \<open>RATE_WINDOW_MS\<close> holds more than \<open>RATE_LIMIT\<close>
  admissions, also for concurrent callers. Two callers that enter while the window is full
  both wait for the same oldest timestamp; on waking, each removes the first timestamp of
  the array, so the second removes one that has not expired. In the schedule
  \<open>racing_callers\<close> both are recorded at 60000 ms, and the window that ends there holds 61
  admissions, while the array still has 60 entries.
\<close>

theorem concurrent_waiters_over_admit:
  "(case limiter_run limiter_start racing_callers of
      None \<Rightarrow> False
    | Some l \<Rightarrow> length (in_window 60000 (admitted l)) = 61
               \<and> length (requestTimestamps l) = 60
               \<and> suspended l = [])"
  by code_simp

end
